theory Spec2Isabelle
  imports Main
begin

section \<open>Values handled by the runner\<close>

text \<open>
  The runner of \<^verbatim>\<open>blockwatcher_runner.py\<close> moves untyped configuration values around:
  what \<^verbatim>\<open>json.load\<close> returns for a file, and what the database cursor returns for a
  JSON column. They are modelled by the datatype below. Python integers are unbounded,
  hence \<open>int\<close>; a Python dictionary keeps its keys in insertion order, hence an
  association list, read with \<open>map_of\<close>. Floating-point numbers are not modelled: no
  function of the runner computes with them.
\<close>

datatype json =
    JNull
  | JBool bool
  | JInt int
  | JStr string
  | JList "json list"
  | JObj "(string \<times> json) list"

type_synonym pydict = "(string \<times> json) list"

text \<open>Python truthiness, as tested by \<^verbatim>\<open>if x:\<close> and by \<^verbatim>\<open>x or y\<close>.\<close>

fun truthy :: "json \<Rightarrow> bool" where
  "truthy JNull = False"
| "truthy (JBool b) = b"
| "truthy (JInt n) = (n \<noteq> 0)"
| "truthy (JStr s) = (s \<noteq> [])"
| "truthy (JList xs) = (xs \<noteq> [])"
| "truthy (JObj kvs) = (kvs \<noteq> [])"

definition py_or :: "json \<Rightarrow> json \<Rightarrow> json" where
  "py_or a b = (if truthy a then a else b)"

text \<open>
  \<^verbatim>\<open>for x in v\<close>: a list yields its elements, a string its characters (bytes here, code
  points in Python), a dictionary its keys; iterating over \<^verbatim>\<open>None\<close>, a boolean or a number
  raises \<^verbatim>\<open>TypeError\<close>, which is the value \<open>None\<close> here.
\<close>

fun py_iter :: "json \<Rightarrow> json list option" where
  "py_iter (JList xs) = Some xs"
| "py_iter (JStr s) = Some (map (\<lambda>c. JStr [c]) s)"
| "py_iter (JObj kvs) = Some (map (\<lambda>kv. JStr (fst kv)) kvs)"
| "py_iter JNull = None"
| "py_iter (JBool b) = None"
| "py_iter (JInt n) = None"

text \<open>\<^verbatim>\<open>d[k] = v\<close> on a dictionary with string keys: an existing key keeps its place.\<close>

fun dict_set :: "('k \<times> 'v) list \<Rightarrow> 'k \<Rightarrow> 'v \<Rightarrow> ('k \<times> 'v) list" where
  "dict_set [] k v = [(k, v)]"
| "dict_set ((k', v') # d) k v =
     (if k' = k then (k', v) # d else (k', v') # dict_set d k v)"

text \<open>\<^verbatim>\<open>d.get(k, default)\<close>.\<close>

definition dict_get_default :: "pydict \<Rightarrow> string \<Rightarrow> json \<Rightarrow> json" where
  "dict_get_default d k dflt = (case map_of d k of None \<Rightarrow> dflt | Some v \<Rightarrow> v)"

text \<open>\<^verbatim>\<open>d.update(e)\<close>: every item of \<open>e\<close> is stored in \<open>d\<close>, in order.\<close>

fun dict_update :: "('k \<times> 'v) list \<Rightarrow> ('k \<times> 'v) list \<Rightarrow> ('k \<times> 'v) list" where
  "dict_update d [] = d"
| "dict_update d ((k, v) # e) = dict_update (dict_set d k v) e"

section \<open>Normalizing the RPC endpoints of a network row\<close>

text \<open>
  The dictionary literal that all three branches of the loop in
  \<^verbatim>\<open>load_network_configs_from_db\<close> append to \<^verbatim>\<open>formatted_urls\<close>.
\<close>

definition rpc_entry :: "json \<Rightarrow> json \<Rightarrow> json" where
  "rpc_entry v w =
     JObj [(''type_'', JStr ''rpc''),
           (''url'', JObj [(''type'', JStr ''plain''), (''value'', v)]),
           (''weight'', w)]"

text \<open>
  The body of \<^verbatim>\<open>for rpc in config['rpc_urls']\<close>: a dictionary with a \<^verbatim>\<open>url\<close> key whose
  value is a dictionary with a \<^verbatim>\<open>value\<close> key; a dictionary with any other \<^verbatim>\<open>url\<close>;
  anything else.
\<close>

fun format_rpc_url :: "json \<Rightarrow> json" where
  "format_rpc_url (JObj rpc) =
     (case map_of rpc ''url'' of
        Some url_data \<Rightarrow>
          (case url_data of
             JObj u \<Rightarrow>
               (case map_of u ''value'' of
                  Some v \<Rightarrow> rpc_entry v (dict_get_default rpc ''weight'' (JInt 100))
                | None \<Rightarrow> rpc_entry url_data (dict_get_default rpc ''weight'' (JInt 100)))
           | _ \<Rightarrow> rpc_entry url_data (dict_get_default rpc ''weight'' (JInt 100)))
      | None \<Rightarrow> rpc_entry (JObj rpc) (JInt 100))"
| "format_rpc_url rpc = rpc_entry rpc (JInt 100)"

section \<open>Dictionaries keyed by loaded values\<close>

text \<open>
  The dictionary of networks is keyed by whatever the \<^verbatim>\<open>slug\<close> of a record is, and the
  working set of trigger references by whatever a monitor refers to. Python compares
  dictionary keys with \<^verbatim>\<open>==\<close>, for which \<^verbatim>\<open>True == 1\<close> and \<^verbatim>\<open>False == 0\<close>; lists and
  dictionaries cannot be keys (\<^verbatim>\<open>TypeError: unhashable\<close>).
\<close>

fun py_num :: "json \<Rightarrow> int option" where
  "py_num (JBool b) = Some (if b then 1 else 0)"
| "py_num (JInt n) = Some n"
| "py_num JNull = None"
| "py_num (JStr s) = None"
| "py_num (JList xs) = None"
| "py_num (JObj kvs) = None"

definition py_key_eq :: "json \<Rightarrow> json \<Rightarrow> bool" where
  "py_key_eq a b =
     (case py_num a of
        Some x \<Rightarrow> (case py_num b of Some y \<Rightarrow> x = y | None \<Rightarrow> False)
      | None \<Rightarrow> (case py_num b of Some y \<Rightarrow> False | None \<Rightarrow> a = b))"

fun hashable :: "json \<Rightarrow> bool" where
  "hashable (JList xs) = False"
| "hashable (JObj kvs) = False"
| "hashable JNull = True"
| "hashable (JBool b) = True"
| "hashable (JInt n) = True"
| "hashable (JStr s) = True"

text \<open>\<^verbatim>\<open>k in d\<close> and \<^verbatim>\<open>d[k] = v\<close> for such a dictionary; the first key stored stays.\<close>

fun key_mem :: "json \<Rightarrow> (json \<times> 'v) list \<Rightarrow> bool" where
  "key_mem k [] = False"
| "key_mem k ((k', v') # d) = (py_key_eq k' k \<or> key_mem k d)"

fun key_set :: "(json \<times> 'v) list \<Rightarrow> json \<Rightarrow> 'v \<Rightarrow> (json \<times> 'v) list" where
  "key_set [] k v = [(k, v)]"
| "key_set ((k', v') # d) k v =
     (if py_key_eq k' k then (k', v) # d else (k', v') # key_set d k v)"

section \<open>The runner and its fatal exits\<close>

text \<open>
  The fields of \<^verbatim>\<open>BlockWatcherRunner\<close> that the loading and synthesis functions read.
  \<^verbatim>\<open>self.networks\<close> is the requested selection (\<^verbatim>\<open>networks or []\<close>).
\<close>

record runner =
  networks :: "string list"
  verbose :: bool
  store_blocks :: bool
  use_database :: bool
  tenant_id :: string

text \<open>
  Every \<^verbatim>\<open>sys.exit(1)\<close> of the source follows a printed diagnostic; the diagnostic names
  the place. \<open>SysExit d c\<close> is the process ending with status \<open>c\<close> after printing \<open>d\<close>.
  The source has no exception class of its own: not finding a network is
  \<open>NoMatchingNetworks...\<close> or \<open>NoNetworkConfigurations...\<close> followed by \<^verbatim>\<open>sys.exit(1)\<close>.
\<close>

datatype diagnostic =
    FailedToLoadNetworksFromDatabase
  | NoMatchingNetworksInDatabase "string list"
  | NoNetworkConfigurationsInDatabase
  | NetworkConfigDirectoryNotFound
  | NoMatchingNetworksFound "string list"
  | NoNetworkConfigurationsFound
  | FailedToLoadMonitorsTriggersFromDatabase
  | BinaryNotFound

datatype sys_exit = SysExit diagnostic int

section \<open>The relational backend\<close>

text \<open>
  A table is the list of its rows; a row is a record of its columns. Columns that the
  runner only copies are \<open>json\<close> (with \<open>JNull\<close> for SQL \<^verbatim>\<open>NULL\<close>); columns that the queries
  compare have their SQL type. A table that is \<open>None\<close> is one whose query raises, and a
  connection that is \<open>None\<close> is one that \<^verbatim>\<open>psycopg2.connect\<close> fails to open.
\<close>

record network_row =
  n_tenant_id :: string
  n_active :: bool
  n_deleted_at :: "string option"
  n_name :: json
  n_slug :: string
  n_network_type :: json
  n_chain_id :: json
  n_network_passphrase :: json
  n_rpc_urls :: json
  n_block_time_ms :: json
  n_confirmation_blocks :: json
  n_cron_schedule :: json
  n_max_past_blocks :: json
  n_store_blocks :: json

record monitor_row =
  m_tenant_id :: string
  m_active :: bool
  m_paused :: bool
  m_deleted_at :: "string option"
  m_slug :: json
  m_networks :: json
  m_addresses :: json
  m_match_functions :: json
  m_match_events :: json
  m_match_transactions :: json
  m_trigger_conditions :: json
  m_triggers :: json

record trigger_row =
  t_id :: string
  t_tenant_id :: string
  t_active :: bool
  t_deleted_at :: "string option"
  t_name :: json
  t_slug :: string
  t_trigger_type :: string

record email_trigger_row =
  e_trigger_id :: string
  e_host :: json
  e_port :: json
  e_username_value :: json
  e_password_value :: json
  e_sender :: json
  e_recipients :: json
  e_message_title :: json
  e_message_body :: json

record webhook_trigger_row =
  w_trigger_id :: string
  w_url_value :: json
  w_method :: json
  w_headers :: json
  w_secret_value :: json
  w_message_title :: json
  w_message_body :: json

record database =
  networks_table :: "network_row list option"
  monitors_table :: "monitor_row list option"
  triggers_table :: "trigger_row list option"
  email_triggers_table :: "email_trigger_row list option"
  webhook_triggers_table :: "webhook_trigger_row list option"

text \<open>
  \<^verbatim>\<open>SELECT * FROM networks WHERE tenant_id = %s AND active = true AND deleted_at IS NULL\<close>,
  with \<^verbatim>\<open>AND slug IN (...)\<close> appended when \<^verbatim>\<open>self.networks\<close> is not empty.
\<close>

definition select_networks :: "string \<Rightarrow> string list \<Rightarrow> network_row list \<Rightarrow> network_row list" where
  "select_networks tid sel rows =
     filter (\<lambda>r. n_tenant_id r = tid \<and> n_active r \<and> n_deleted_at r = None \<and>
                 (sel = [] \<or> n_slug r \<in> set sel)) rows"

text \<open>
  The body of \<^verbatim>\<open>for row in rows\<close>: the dictionary literal, then the RPC endpoints
  reformatted when the column is truthy. \<open>None\<close> is an exception raised in the body.
\<close>

definition network_config_of_row :: "bool \<Rightarrow> network_row \<Rightarrow> pydict option" where
  "network_config_of_row sb row =
     (let config =
        [(''name'', n_name row),
         (''slug'', JStr (n_slug row)),
         (''network_type'', n_network_type row),
         (''chain_id'', n_chain_id row),
         (''network_passphrase'', n_network_passphrase row),
         (''rpc_urls'', n_rpc_urls row),
         (''block_time_ms'', n_block_time_ms row),
         (''confirmation_blocks'', n_confirmation_blocks row),
         (''cron_schedule'', n_cron_schedule row),
         (''max_past_blocks'', n_max_past_blocks row),
         (''store_blocks'', py_or (n_store_blocks row) (JBool sb))]
      in if truthy (n_rpc_urls row)
         then (case py_iter (n_rpc_urls row) of
                 None \<Rightarrow> None
               | Some rpcs \<Rightarrow>
                   Some (dict_set config ''rpc_urls'' (JList (map format_rpc_url rpcs))))
         else Some config)"

fun network_rows_loop ::
  "bool \<Rightarrow> (json \<times> pydict) list \<Rightarrow> network_row list \<Rightarrow> (json \<times> pydict) list option" where
  "network_rows_loop sb nets [] = Some nets"
| "network_rows_loop sb nets (row # rows) =
     (case network_config_of_row sb row of
        None \<Rightarrow> None
      | Some config \<Rightarrow> network_rows_loop sb (key_set nets (JStr (n_slug row)) config) rows)"

text \<open>
  \<^verbatim>\<open>load_network_configs_from_db\<close>: everything between \<^verbatim>\<open>try\<close> and \<^verbatim>\<open>except Exception\<close>
  ends in \<^verbatim>\<open>sys.exit(1)\<close> when it raises; so does an empty result.
\<close>

definition load_network_configs_from_db ::
  "runner \<Rightarrow> database option \<Rightarrow> sys_exit + (json \<times> pydict) list" where
  "load_network_configs_from_db self conn =
     (case conn of
        None \<Rightarrow> Inl (SysExit FailedToLoadNetworksFromDatabase 1)
      | Some db \<Rightarrow>
          (case networks_table db of
             None \<Rightarrow> Inl (SysExit FailedToLoadNetworksFromDatabase 1)
           | Some tbl \<Rightarrow>
               (case network_rows_loop (store_blocks self) []
                       (select_networks (tenant_id self) (networks self) tbl) of
                  None \<Rightarrow> Inl (SysExit FailedToLoadNetworksFromDatabase 1)
                | Some nets \<Rightarrow>
                    if nets = []
                    then (if networks self \<noteq> []
                          then Inl (SysExit (NoMatchingNetworksInDatabase (networks self)) 1)
                          else Inl (SysExit NoNetworkConfigurationsInDatabase 1))
                    else Inr nets)))"

section \<open>The file backend\<close>

text \<open>
  \<^verbatim>\<open>config/networks\<close> is \<open>None\<close> when the directory does not exist, and otherwise the list
  of its \<^verbatim>\<open>*.json\<close> files in the order of \<^verbatim>\<open>glob\<close>: the stem of the name and what
  \<^verbatim>\<open>json.load\<close> returns, \<open>None\<close> when opening or parsing raises.
\<close>

type_synonym config_file = "string \<times> json option"

text \<open>\<^verbatim>\<open>slug in self.networks\<close>: only a string equals a member of a list of strings.\<close>

definition slug_in :: "json \<Rightarrow> string list \<Rightarrow> bool" where
  "slug_in slug sel = (case slug of JStr s \<Rightarrow> s \<in> set sel | _ \<Rightarrow> False)"

text \<open>
  The body of \<^verbatim>\<open>for config_file in network_dir.glob("*.json")\<close>. A file is skipped with a
  warning when anything in the \<^verbatim>\<open>try\<close> raises: \<^verbatim>\<open>open\<close> or \<^verbatim>\<open>json.load\<close>, \<^verbatim>\<open>config.get\<close> on
  a value that is not a dictionary, \<^verbatim>\<open>networks[slug] = config\<close> on an unhashable slug.
\<close>

definition load_file ::
  "string list \<Rightarrow> (json \<times> pydict) list \<Rightarrow> config_file \<Rightarrow> (json \<times> pydict) list" where
  "load_file sel nets f =
     (case snd f of
        Some (JObj config) \<Rightarrow>
          (let slug = dict_get_default config ''slug'' (JStr (fst f))
           in if sel \<noteq> [] \<and> \<not> slug_in slug sel then nets
              else if hashable slug then key_set nets slug config
              else nets)
      | _ \<Rightarrow> nets)"

definition load_network_configs_from_files ::
  "runner \<Rightarrow> config_file list option \<Rightarrow> sys_exit + (json \<times> pydict) list" where
  "load_network_configs_from_files self network_dir =
     (case network_dir of
        None \<Rightarrow> Inl (SysExit NetworkConfigDirectoryNotFound 1)
      | Some files \<Rightarrow>
          (let nets = foldl (load_file (networks self)) [] files
           in if nets = []
              then (if networks self \<noteq> []
                    then Inl (SysExit (NoMatchingNetworksFound (networks self)) 1)
                    else Inl (SysExit NoNetworkConfigurationsFound 1))
              else Inr nets))"

text \<open>\<^verbatim>\<open>load_network_configs\<close> chooses the backend by \<^verbatim>\<open>self.use_database\<close> alone.\<close>

definition load_network_configs ::
  "runner \<Rightarrow> database option \<Rightarrow> config_file list option \<Rightarrow> sys_exit + (json \<times> pydict) list" where
  "load_network_configs self conn network_dir =
     (if use_database self then load_network_configs_from_db self conn
      else load_network_configs_from_files self network_dir)"

section \<open>Monitors and triggers of the relational backend\<close>

text \<open>
  \<^verbatim>\<open>triggers_map: Dict[str, Optional[dict]]\<close>: a reference is first stored with \<^verbatim>\<open>None\<close>
  and later overwritten with the trigger's configuration.
\<close>

type_synonym triggers_map = "(json \<times> pydict option) list"

text \<open>
  \<^verbatim>\<open>SELECT * FROM monitors WHERE tenant_id = %s AND active = true AND paused = false
  AND deleted_at IS NULL\<close>.
\<close>

definition select_monitors :: "string \<Rightarrow> monitor_row list \<Rightarrow> monitor_row list" where
  "select_monitors tid rows =
     filter (\<lambda>r. m_tenant_id r = tid \<and> m_active r \<and> \<not> m_paused r \<and> m_deleted_at r = None) rows"

definition monitor_of_row :: "monitor_row \<Rightarrow> pydict" where
  "monitor_of_row row =
     [(''name'', m_slug row),
      (''paused'', JBool (m_paused row)),
      (''networks'', m_networks row),
      (''addresses'', m_addresses row),
      (''match_conditions'',
         JObj [(''functions'', m_match_functions row),
               (''events'', m_match_events row),
               (''transactions'', m_match_transactions row)]),
      (''trigger_conditions'', m_trigger_conditions row),
      (''triggers'', m_triggers row)]"

text \<open>
  \<^verbatim>\<open>if k not in triggers_map: triggers_map[k] = None\<close>; an unhashable \<open>k\<close> raises.
\<close>

definition note_ref :: "triggers_map \<Rightarrow> json \<Rightarrow> triggers_map option" where
  "note_ref tm k =
     (if hashable k then Some (if key_mem k tm then tm else key_set tm k None) else None)"

text \<open>
  The body of \<^verbatim>\<open>for trigger_ref in row['triggers']\<close>: a dictionary with an \<^verbatim>\<open>id\<close>, or a
  string; any other reference is passed over.
\<close>

definition collect_ref :: "triggers_map \<Rightarrow> json \<Rightarrow> triggers_map option" where
  "collect_ref tm trigger_ref =
     (case trigger_ref of
        JObj d \<Rightarrow>
          (case map_of d ''id'' of
             Some trigger_id \<Rightarrow> note_ref tm trigger_id
           | None \<Rightarrow> Some tm)
      | JStr s \<Rightarrow> note_ref tm (JStr s)
      | _ \<Rightarrow> Some tm)"

fun collect_refs :: "triggers_map \<Rightarrow> json list \<Rightarrow> triggers_map option" where
  "collect_refs tm [] = Some tm"
| "collect_refs tm (r # rs) =
     (case collect_ref tm r of None \<Rightarrow> None | Some tm' \<Rightarrow> collect_refs tm' rs)"

fun monitor_rows_loop ::
  "pydict list \<Rightarrow> triggers_map \<Rightarrow> monitor_row list \<Rightarrow> (pydict list \<times> triggers_map) option" where
  "monitor_rows_loop monitors tm [] = Some (monitors, tm)"
| "monitor_rows_loop monitors tm (row # rows) =
     (case py_iter (m_triggers row) of
        None \<Rightarrow> None
      | Some refs \<Rightarrow>
          (case collect_refs tm refs of
             None \<Rightarrow> None
           | Some tm' \<Rightarrow> monitor_rows_loop (monitors @ [monitor_of_row row]) tm' rows))"

text \<open>
  \<^verbatim>\<open>SELECT * FROM triggers WHERE (slug IN (...) OR id::text IN (...)) AND tenant_id = %s
  AND active = true AND deleted_at IS NULL\<close>, the references being the query's
  parameters. A reference that is a number or a boolean is compared with a text column,
  which the database rejects: the query raises. \<^verbatim>\<open>None\<close> is sent as \<^verbatim>\<open>NULL\<close> and equals
  nothing.
\<close>

definition select_triggers ::
  "json list \<Rightarrow> string \<Rightarrow> trigger_row list \<Rightarrow> trigger_row list option" where
  "select_triggers refs tid rows =
     (if \<exists>ref \<in> set refs. py_num ref \<noteq> None then None
      else Some (filter (\<lambda>r. (JStr (t_slug r) \<in> set refs \<or> JStr (t_id r) \<in> set refs) \<and>
                              t_tenant_id r = tid \<and> t_active r \<and> t_deleted_at r = None) rows))"

text \<open>The first value of \<^verbatim>\<open>trigger_config\<close>, kept when no detail record is found.\<close>

definition flat_trigger :: "trigger_row \<Rightarrow> pydict" where
  "flat_trigger row =
     [(''id'', JStr (t_id row)),
      (''name'', t_name row),
      (''slug'', JStr (t_slug row)),
      (''type'', JStr (t_trigger_type row))]"

definition email_trigger :: "trigger_row \<Rightarrow> email_trigger_row \<Rightarrow> pydict" where
  "email_trigger row email_config =
     [(t_slug row,
       JObj [(''name'', t_name row),
             (''trigger_type'', JStr ''email''),
             (''config'',
                JObj [(''host'', e_host email_config),
                      (''port'', e_port email_config),
                      (''username'',
                         JObj [(''type'', JStr ''plain''),
                               (''value'', e_username_value email_config)]),
                      (''password'',
                         JObj [(''type'', JStr ''plain''),
                               (''value'', e_password_value email_config)]),
                      (''sender'', e_sender email_config),
                      (''recipients'', e_recipients email_config),
                      (''message'',
                         JObj [(''title'', e_message_title email_config),
                               (''body'', e_message_body email_config)])])])]"

definition webhook_trigger :: "trigger_row \<Rightarrow> webhook_trigger_row \<Rightarrow> pydict" where
  "webhook_trigger row webhook_config =
     [(t_slug row,
       JObj [(''name'', t_name row),
             (''trigger_type'', JStr ''webhook''),
             (''config'',
                JObj [(''url'',
                         JObj [(''type'', JStr ''plain''),
                               (''value'', w_url_value webhook_config)]),
                      (''method'', w_method webhook_config),
                      (''headers'', py_or (w_headers webhook_config) (JObj [])),
                      (''secret'',
                         (if truthy (w_secret_value webhook_config)
                          then JObj [(''type'', JStr ''plain''),
                                     (''value'', w_secret_value webhook_config)]
                          else JNull)),
                      (''message'',
                         JObj [(''title'', w_message_title webhook_config),
                               (''body'', w_message_body webhook_config)])])])]"

text \<open>
  \<^verbatim>\<open>SELECT * FROM email_triggers WHERE trigger_id = %s\<close> with \<^verbatim>\<open>fetchone\<close> is the first
  matching row, if any; likewise for \<^verbatim>\<open>webhook_triggers\<close>. \<open>None\<close> is a query that raises.
\<close>

definition trigger_config_of_row :: "database \<Rightarrow> trigger_row \<Rightarrow> pydict option" where
  "trigger_config_of_row db row =
     (if t_trigger_type row = ''email'' then
        (case email_triggers_table db of
           None \<Rightarrow> None
         | Some tbl \<Rightarrow>
             (case find (\<lambda>e. e_trigger_id e = t_id row) tbl of
                Some email_config \<Rightarrow> Some (email_trigger row email_config)
              | None \<Rightarrow> Some (flat_trigger row)))
      else if t_trigger_type row = ''webhook'' then
        (case webhook_triggers_table db of
           None \<Rightarrow> None
         | Some tbl \<Rightarrow>
             (case find (\<lambda>w. w_trigger_id w = t_id row) tbl of
                Some webhook_config \<Rightarrow> Some (webhook_trigger row webhook_config)
              | None \<Rightarrow> Some (flat_trigger row)))
      else Some (flat_trigger row))"

text \<open>The body of \<^verbatim>\<open>for row in trigger_rows\<close> stores the configuration under both keys.\<close>

fun trigger_rows_loop ::
  "database \<Rightarrow> triggers_map \<Rightarrow> trigger_row list \<Rightarrow> triggers_map option" where
  "trigger_rows_loop db tm [] = Some tm"
| "trigger_rows_loop db tm (row # rows) =
     (case trigger_config_of_row db row of
        None \<Rightarrow> None
      | Some trigger_config \<Rightarrow>
          trigger_rows_loop db
            (key_set (key_set tm (JStr (t_id row)) (Some trigger_config))
               (JStr (t_slug row)) (Some trigger_config))
            rows)"

text \<open>\<^verbatim>\<open>if triggers_map:\<close> the referenced triggers are loaded; an empty map issues no query.\<close>

definition load_referenced_triggers ::
  "string \<Rightarrow> database \<Rightarrow> triggers_map \<Rightarrow> triggers_map option" where
  "load_referenced_triggers tid db tm =
     (if tm \<noteq> [] then
        (case triggers_table db of
           None \<Rightarrow> None
         | Some tbl \<Rightarrow>
             (case select_triggers (map fst tm) tid tbl of
                None \<Rightarrow> None
              | Some trigger_rows \<Rightarrow> trigger_rows_loop db tm trigger_rows))
      else Some tm)"

text \<open>
  \<^verbatim>\<open>load_monitor_and_trigger_configs_from_db\<close> has two effects, kept apart: \<open>printed\<close> is
  what it prints on the console, and \<open>returned\<close> is the value its caller receives, the
  pair \<^verbatim>\<open>(monitors, triggers)\<close>. On any exception the function prints the failure and
  returns \<^verbatim>\<open>[], []\<close>. The list of triggers is
  \<^verbatim>\<open>[t for t in triggers_map.values() if t is not None]\<close>.
\<close>

record loaded_monitors =
  printed :: "diagnostic list"
  returned :: "pydict list \<times> pydict list"

definition load_monitor_and_trigger_configs_from_db ::
  "runner \<Rightarrow> database option \<Rightarrow> loaded_monitors" where
  "load_monitor_and_trigger_configs_from_db self conn =
     (let failed = \<lparr> printed = [FailedToLoadMonitorsTriggersFromDatabase], returned = ([], []) \<rparr>
      in case conn of
           None \<Rightarrow> failed
         | Some db \<Rightarrow>
             (case monitors_table db of
                None \<Rightarrow> failed
              | Some tbl \<Rightarrow>
                  (case monitor_rows_loop [] [] (select_monitors (tenant_id self) tbl) of
                     None \<Rightarrow> failed
                   | Some (monitors, tm) \<Rightarrow>
                       (case load_referenced_triggers (tenant_id self) db tm of
                          None \<Rightarrow> failed
                        | Some tm' \<Rightarrow>
                            \<lparr> printed = [],
                              returned = (monitors, List.map_filter snd tm') \<rparr>))))"

section \<open>Synthesizing the configuration directory\<close>

text \<open>
  The files written, in order. A file is named by its directory and by the value that
  the source formats into \<^verbatim>\<open>f"{...}.json"\<close>; \<open>MonitorFileNumbered i\<close> is \<^verbatim>\<open>monitor_{i}.json\<close>.
\<close>

datatype config_path =
    NetworkFile json
  | MonitorFile json
  | MonitorFileNumbered nat
  | TriggerFile string

type_synonym written_files = "(config_path \<times> json) list"

text \<open>
  The file system decides what can be written. \<open>can_mkdir\<close> tells whether the directories
  of the configuration can be created (\<^verbatim>\<open>mkdir\<close>, \<^verbatim>\<open>tempfile.TemporaryDirectory\<close>), and
  \<open>can_open\<close> whether \<^verbatim>\<open>open(path, 'w')\<close> succeeds for a file: it raises, for instance, when
  the formatted name has a \<^verbatim>\<open>/\<close> and so lies in a directory that does not exist. The
  values written are JSON values, which \<^verbatim>\<open>json.dump\<close> serializes.
\<close>

record file_system =
  can_mkdir :: bool
  can_open :: "config_path \<Rightarrow> bool"

text \<open>
  Writing files one after the other. No function of the synthesis catches the
  exception of \<^verbatim>\<open>open\<close>: the first file that cannot be opened ends the writing, and the
  result tells which files were written before and that the exception is under way
  (\<open>False\<close>).
\<close>

fun write_files :: "(config_path \<Rightarrow> bool) \<Rightarrow> written_files \<Rightarrow> written_files \<times> bool" where
  "write_files ok [] = ([], True)"
| "write_files ok (f # fs) =
     (if ok (fst f)
      then (case write_files ok fs of (w, b) \<Rightarrow> (f # w, b))
      else ([], False))"

definition evm_monitor :: "json list \<Rightarrow> json" where
  "evm_monitor evm_networks =
     JObj [(''name'', JStr ''blockwatcher_evm''),
           (''paused'', JBool False),
           (''networks'', JList evm_networks),
           (''addresses'',
              JList [JObj [(''address'', JStr ''0x0000000000000000000000000000000000000000'')]]),
           (''match_conditions'',
              JObj [(''functions'', JList []),
                    (''events'', JList []),
                    (''transactions'',
                       JList [JObj [(''status'', JStr ''Success''), (''expression'', JNull)]])]),
           (''trigger_conditions'', JList []),
           (''triggers'', JList [])]"

definition stellar_monitor :: "json list \<Rightarrow> json" where
  "stellar_monitor stellar_networks =
     JObj [(''name'', JStr ''blockwatcher_stellar''),
           (''paused'', JBool False),
           (''networks'', JList stellar_networks),
           (''addresses'',
              JList [JObj [(''address'',
                JStr ''GAAAAAAAAAAAAAAAAAAAAAAAAAAAAAAAAAAAAAAAAAAAAAAAAAAAAWHF'')]]),
           (''match_conditions'',
              JObj [(''functions'', JList []),
                    (''events'', JList []),
                    (''transactions'',
                       JList [JObj [(''status'', JStr ''Success''), (''expression'', JNull)]])]),
           (''trigger_conditions'', JList []),
           (''triggers'', JList [])]"

text \<open>
  \<^verbatim>\<open>[slug for slug, cfg in networks.items() if cfg.get('network_type') == t]\<close>.
\<close>

definition networks_of_type :: "string \<Rightarrow> (json \<times> pydict) list \<Rightarrow> json list" where
  "networks_of_type t nets =
     map fst (filter (\<lambda>(slug, cfg). map_of cfg ''network_type'' = Some (JStr t)) nets)"

text \<open>
  \<^verbatim>\<open>_create_minimal_monitor_configs\<close> (named without its leading underscore) builds the
  monitors of \<open>minimal_monitor_files\<close> and writes each as soon as it is built.
\<close>

definition minimal_monitor_files :: "(json \<times> pydict) list \<Rightarrow> written_files" where
  "minimal_monitor_files nets =
     (let evm_networks = networks_of_type ''EVM'' nets;
          stellar_networks = networks_of_type ''Stellar'' nets
      in (if evm_networks \<noteq> []
          then [(MonitorFile (JStr ''blockwatcher_evm''), evm_monitor evm_networks)]
          else []) @
         (if stellar_networks \<noteq> []
          then [(MonitorFile (JStr ''blockwatcher_stellar''), stellar_monitor stellar_networks)]
          else []))"

definition create_minimal_monitor_configs ::
  "file_system \<Rightarrow> (json \<times> pydict) list \<Rightarrow> written_files \<times> bool" where
  "create_minimal_monitor_configs fs nets =
     write_files (can_open fs) (minimal_monitor_files nets)"

text \<open>
  \<^verbatim>\<open>for slug, config in networks.items()\<close>: the copy, with \<^verbatim>\<open>store_blocks\<close> set when
  \<^verbatim>\<open>self.store_blocks\<close> is, is to be written to \<^verbatim>\<open>networks/{slug}.json\<close>.
\<close>

definition network_copy :: "bool \<Rightarrow> pydict \<Rightarrow> pydict" where
  "network_copy sb config =
     (if sb then dict_set config ''store_blocks'' (JBool True) else config)"

definition write_networks :: "bool \<Rightarrow> (json \<times> pydict) list \<Rightarrow> written_files" where
  "write_networks sb nets =
     map (\<lambda>(slug, config). (NetworkFile slug, JObj (network_copy sb config))) nets"

text \<open>\<^verbatim>\<open>for i, monitor in enumerate(monitors)\<close>.\<close>

fun write_monitors :: "nat \<Rightarrow> pydict list \<Rightarrow> written_files" where
  "write_monitors i [] = []"
| "write_monitors i (monitor # monitors) =
     ((case map_of monitor ''name'' of
         Some n \<Rightarrow> MonitorFile n
       | None \<Rightarrow> MonitorFileNumbered i), JObj monitor) # write_monitors (Suc i) monitors"

text \<open>\<^verbatim>\<open>all_triggers = {}\<close>, then \<^verbatim>\<open>all_triggers.update(trigger)\<close> for every trigger.\<close>

definition merge_triggers :: "pydict list \<Rightarrow> pydict" where
  "merge_triggers triggers = foldl dict_update [] triggers"

datatype destination = ConfigDirectory | TemporaryDirectory

text \<open>
  \<^verbatim>\<open>create_minimal_configs\<close>. \<open>written\<close> lists the files written, in order, and \<open>completed\<close>
  tells whether the function returned; it is \<open>False\<close> when an exception of the file
  system left it, after which nothing more is written. The relational backend is asked
  for monitors and triggers only once the network files are written. A monitor or
  trigger file is written from what the loader returned; what the loader printed is in
  \<open>reported\<close>.
\<close>

record synthesized =
  target :: destination
  written :: written_files
  reported :: "diagnostic list"
  completed :: bool

definition create_minimal_configs ::
  "runner \<Rightarrow> file_system \<Rightarrow> (json \<times> pydict) list \<Rightarrow> database option \<Rightarrow> synthesized" where
  "create_minimal_configs self fs nets conn =
     (let dest = (if use_database self then ConfigDirectory else TemporaryDirectory)
      in if \<not> can_mkdir fs
         then \<lparr> target = dest, written = [], reported = [], completed = False \<rparr>
         else
           (case write_files (can_open fs) (write_networks (store_blocks self) nets) of
              (w1, ok1) \<Rightarrow>
                if \<not> ok1
                then \<lparr> target = dest, written = w1, reported = [], completed = False \<rparr>
                else if use_database self then
                  (let loaded = load_monitor_and_trigger_configs_from_db self conn;
                       monitors = fst (returned loaded);
                       triggers = snd (returned loaded)
                   in case (if monitors \<noteq> []
                            then write_files (can_open fs) (write_monitors 0 monitors)
                            else create_minimal_monitor_configs fs nets) of
                        (w2, ok2) \<Rightarrow>
                          if \<not> ok2
                          then \<lparr> target = dest, written = w1 @ w2,
                                 reported = printed loaded, completed = False \<rparr>
                          else
                            (case write_files (can_open fs)
                                    [if triggers \<noteq> []
                                     then (TriggerFile ''database_triggers'',
                                           JObj (merge_triggers triggers))
                                     else (TriggerFile ''empty'', JObj [])] of
                               (w3, ok3) \<Rightarrow>
                                 \<lparr> target = dest, written = w1 @ w2 @ w3,
                                   reported = printed loaded, completed = ok3 \<rparr>))
                else
                  (case create_minimal_monitor_configs fs nets of
                     (w2, ok2) \<Rightarrow>
                       if \<not> ok2
                       then \<lparr> target = dest, written = w1 @ w2, reported = [],
                              completed = False \<rparr>
                       else
                         (case write_files (can_open fs) [(TriggerFile ''empty'', JObj [])] of
                            (w3, ok3) \<Rightarrow>
                              \<lparr> target = dest, written = w1 @ w2 @ w3, reported = [],
                                completed = ok3 \<rparr>))))"

section \<open>Tracking progress\<close>

text \<open>
  \<^verbatim>\<open>self.stats\<close> maps a network to its statistics. \<^verbatim>\<open>datetime.now()\<close> is a reading of a
  clock, a number here.
\<close>

record network_progress =
  first_block :: int
  last_block :: int
  blocks_processed :: int
  last_update :: nat

type_synonym statistics = "(string \<times> network_progress) list"

text \<open>The \<^verbatim>\<open># Update stats\<close> block of \<^verbatim>\<open>monitor_blocks\<close>.\<close>

definition update_stats :: "statistics \<Rightarrow> string \<Rightarrow> int \<Rightarrow> nat \<Rightarrow> statistics" where
  "update_stats st network block_num now =
     (case map_of st network of
        None \<Rightarrow>
          dict_set st network
            \<lparr> first_block = block_num, last_block = block_num,
              blocks_processed = 0, last_update = now \<rparr>
      | Some s \<Rightarrow>
          (let old_block = last_block s
           in if block_num > old_block
              then dict_set st network
                     (s\<lparr> last_block := block_num,
                        blocks_processed := block_num - first_block s,
                        last_update := now \<rparr>)
              else st))"

text \<open>
  One marker file read in one pass of the loop: the network named by the file, the
  number \<^verbatim>\<open>int(f.read().strip())\<close>, or \<open>None\<close> when opening or parsing raises (the file is
  then skipped), and the time of the read.
\<close>

type_synonym marker_read = "string \<times> int option \<times> nat"

definition read_marker :: "statistics \<Rightarrow> marker_read \<Rightarrow> statistics" where
  "read_marker st r =
     (case r of
        (network, None, now) \<Rightarrow> st
      | (network, Some block_num, now) \<Rightarrow> update_stats st network block_num now)"

text \<open>
  \<^verbatim>\<open>while self.running\<close>: every pass reads the marker files found by \<^verbatim>\<open>glob\<close>. The passes
  made until the flag is cleared are the list \<open>polls\<close>.
\<close>

definition monitor_blocks :: "statistics \<Rightarrow> marker_read list list \<Rightarrow> statistics" where
  "monitor_blocks st polls = foldl (foldl read_marker) st polls"

section \<open>Supervising the child process\<close>

text \<open>
  What the runner does to the child process and what it reports, in order; banners and
  progress lines are left out. After \<^verbatim>\<open>terminate()\<close>, the child process
  answers \<^verbatim>\<open>wait(timeout=t)\<close> by exiting in time or by letting the timeout expire
  (\<^verbatim>\<open>subprocess.TimeoutExpired\<close>); a child is that answer as a function of \<open>t\<close>, in seconds.
\<close>

datatype wait_result = Exited | TimeoutExpired

type_synonym child = "nat \<Rightarrow> wait_result"

datatype event =
    Printed diagnostic
  | ShuttingDownMessage
  | ErrorMessage
  | Terminate
  | WaitWithTimeout nat
  | TerminatedGracefullyMessage
  | Kill
  | KilledForcefullyMessage
  | FinalStatistics "(string \<times> int \<times> int \<times> nat) list"
  | TemporaryDirectoryRemoved
  | CleanedUpMessage
  | DatabaseConfigsWrittenMessage
  | UncaughtTypeError
  | UncaughtOSError

text \<open>
  \<^verbatim>\<open>shutdown\<close>: \<^verbatim>\<open>self.process\<close> is \<open>None\<close> until \<^verbatim>\<open>Popen\<close> has returned. The report lists,
  for every network, the blocks processed, the last block and the last update.
\<close>

definition shutdown :: "child option \<Rightarrow> statistics \<Rightarrow> event list" where
  "shutdown process st =
     (case process of
        None \<Rightarrow> []
      | Some p \<Rightarrow>
          [Terminate, WaitWithTimeout 10] @
          (case p 10 of
             Exited \<Rightarrow> [TerminatedGracefullyMessage]
           | TimeoutExpired \<Rightarrow> [Kill, KilledForcefullyMessage])) @
     (if st \<noteq> []
      then [FinalStatistics
              (map (\<lambda>(network, s). (network, blocks_processed s, last_block s, last_update s)) st)]
      else [])"

text \<open>\<^verbatim>\<open>cleanup\<close>; \<open>temp_dir\<close> tells whether \<^verbatim>\<open>self.temp_dir\<close> is set.\<close>

definition cleanup :: "runner \<Rightarrow> bool \<Rightarrow> event list" where
  "cleanup self temp_dir =
     (if temp_dir
      then TemporaryDirectoryRemoved # (if verbose self then [CleanedUpMessage] else [])
      else if use_database self \<and> verbose self then [DatabaseConfigsWrittenMessage]
      else [])"

text \<open>
  How the \<^verbatim>\<open>try\<close> block of \<^verbatim>\<open>run\<close> ends: \<^verbatim>\<open>self.process.wait()\<close> returns the exit code of a
  child that ended by itself; or \<^verbatim>\<open>KeyboardInterrupt\<close> is raised; or another exception
  is. In the last two cases \<^verbatim>\<open>self.process\<close> is set or not.
\<close>

datatype course =
    ChildExits int
  | Interrupted "child option"
  | Failed "child option"

text \<open>
  \<open>status\<close> is the exit status of the runner's own process: \<open>0\<close> when \<^verbatim>\<open>run\<close>, and then
  \<^verbatim>\<open>main\<close>, return; the argument of \<^verbatim>\<open>sys.exit\<close> otherwise.
\<close>

record outcome =
  events :: "event list"
  status :: int

text \<open>
  The \<^verbatim>\<open>try\<close> statement of \<^verbatim>\<open>run\<close>, with its handlers and its \<^verbatim>\<open>finally\<close>. The value of
  \<^verbatim>\<open>self.process.wait()\<close> is not bound to anything in the source.
\<close>

definition supervise :: "runner \<Rightarrow> bool \<Rightarrow> statistics \<Rightarrow> course \<Rightarrow> outcome" where
  "supervise self temp_dir st c =
     (case c of
        ChildExits code \<Rightarrow>
          \<lparr> events = cleanup self temp_dir, status = 0 \<rparr>
      | Interrupted process \<Rightarrow>
          \<lparr> events = ShuttingDownMessage # shutdown process st @ cleanup self temp_dir,
            status = 0 \<rparr>
      | Failed process \<Rightarrow>
          \<lparr> events = ErrorMessage # shutdown process st @ cleanup self temp_dir,
            status = 1 \<rparr>)"

text \<open>
  \<^verbatim>\<open>build_command\<close> looks for the release binary, the debug binary, then the binary in
  the working directory.
\<close>

definition build_command :: "bool \<Rightarrow> bool \<Rightarrow> bool \<Rightarrow> sys_exit + string" where
  "build_command release debug here =
     (if release then Inr ''target/release/openzeppelin-monitor''
      else if debug then Inr ''target/debug/openzeppelin-monitor''
      else if here then Inr ''openzeppelin-monitor''
      else Inl (SysExit BinaryNotFound 1))"

text \<open>The world around one run of the runner.\<close>

record environment =
  connection_at_load :: "database option"
  network_dir :: "config_file list option"
  connection_at_synthesis :: "database option"
  disk :: file_system
  release_binary :: bool
  debug_binary :: bool
  local_binary :: bool
  marker_polls :: "marker_read list list"
  try_block :: course

fun is_str :: "json \<Rightarrow> bool" where
  "is_str (JStr s) = True"
| "is_str JNull = False"
| "is_str (JBool b) = False"
| "is_str (JInt n) = False"
| "is_str (JList xs) = False"
| "is_str (JObj kvs) = False"

text \<open>
  \<^verbatim>\<open>run\<close>, from loading the networks to the end of the \<^verbatim>\<open>try\<close> statement. After loading,
  \<^verbatim>\<open>', '.join(networks.keys())\<close> raises \<^verbatim>\<open>TypeError\<close> on a key that is not a string. Nothing
  catches it, nor the exception that leaves \<^verbatim>\<open>create_minimal_configs\<close> when a file cannot
  be written: the interpreter ends with status 1, before the child is started.
\<close>

definition run :: "runner \<Rightarrow> environment \<Rightarrow> outcome" where
  "run self env =
     (case load_network_configs self (connection_at_load env) (network_dir env) of
        Inl (SysExit d c) \<Rightarrow> \<lparr> events = [Printed d], status = c \<rparr>
      | Inr nets \<Rightarrow>
          if \<not> list_all (\<lambda>(slug, config). is_str slug) nets
          then \<lparr> events = [UncaughtTypeError], status = 1 \<rparr>
          else
            (let configs = create_minimal_configs self (disk env) nets
                             (connection_at_synthesis env)
             in if \<not> completed configs
                then \<lparr> events = map Printed (reported configs) @ [UncaughtOSError],
                       status = 1 \<rparr>
                else
                  (case build_command (release_binary env) (debug_binary env)
                          (local_binary env) of
                     Inl (SysExit d c) \<Rightarrow>
                       \<lparr> events = map Printed (reported configs) @ [Printed d], status = c \<rparr>
                   | Inr cmd \<Rightarrow>
                       (let r = supervise self (target configs = TemporaryDirectory)
                                  (monitor_blocks [] (marker_polls env)) (try_block env)
                        in r\<lparr> events := map Printed (reported configs) @ events r \<rparr>))))"

section \<open>Notions used in the statements\<close>

text \<open>The statistics of every network agree: blocks processed is last minus first.\<close>

definition stats_inv :: "statistics \<Rightarrow> bool" where
  "stats_inv st =
     (\<forall>n s. map_of st n = Some s \<longrightarrow> blocks_processed s = last_block s - first_block s)"

text \<open>A field of a written record.\<close>

definition field :: "string \<Rightarrow> json \<Rightarrow> json option" where
  "field k j = (case j of JObj d \<Rightarrow> map_of d k | _ \<Rightarrow> None)"

text \<open>The distinct network types present among the loaded networks.\<close>

definition network_types :: "(json \<times> pydict) list \<Rightarrow> json set" where
  "network_types nets =
     set (List.map_filter (\<lambda>(slug, cfg). map_of cfg ''network_type'') nets)"

text \<open>
  A monitor that acts on nothing: not paused, no function or event filter, successful
  transactions with no expression, no trigger condition and no trigger.
\<close>

definition minimal_watch :: "json \<Rightarrow> bool" where
  "minimal_watch m =
     (field ''paused'' m = Some (JBool False) \<and>
      field ''match_conditions'' m =
        Some (JObj [(''functions'', JList []), (''events'', JList []),
                    (''transactions'',
                       JList [JObj [(''status'', JStr ''Success''), (''expression'', JNull)]])]) \<and>
      field ''trigger_conditions'' m = Some (JList []) \<and>
      field ''triggers'' m = Some (JList []))"

fun is_monitor_file :: "config_path \<Rightarrow> bool" where
  "is_monitor_file (MonitorFile n) = True"
| "is_monitor_file (MonitorFileNumbered i) = True"
| "is_monitor_file (NetworkFile slug) = False"
| "is_monitor_file (TriggerFile n) = False"

fun is_network_file :: "config_path \<Rightarrow> bool" where
  "is_network_file (NetworkFile slug) = True"
| "is_network_file (MonitorFile n) = False"
| "is_network_file (MonitorFileNumbered i) = False"
| "is_network_file (TriggerFile n) = False"

text \<open>Three networks of three types, one of them neither EVM nor Stellar.\<close>

definition three_networks :: "(json \<times> pydict) list" where
  "three_networks =
     [(JStr ''ethereum_mainnet'',
         [(''slug'', JStr ''ethereum_mainnet''), (''network_type'', JStr ''EVM'')]),
      (JStr ''stellar_mainnet'',
         [(''slug'', JStr ''stellar_mainnet''), (''network_type'', JStr ''Stellar'')]),
      (JStr ''midnight_testnet'',
         [(''slug'', JStr ''midnight_testnet''), (''network_type'', JStr ''Midnight'')])]"

text \<open>
  A file system with freshly created, empty directories: a file whose name has a
  \<^verbatim>\<open>/\<close> lies in a directory that does not exist, and cannot be opened.
\<close>

fun plain_name :: "json \<Rightarrow> bool" where
  "plain_name (JStr s) = (CHR ''/'' \<notin> set s)"
| "plain_name JNull = True"
| "plain_name (JBool b) = True"
| "plain_name (JInt n) = True"
| "plain_name (JList xs) = False"
| "plain_name (JObj kvs) = False"

fun opens_in_fresh_directory :: "config_path \<Rightarrow> bool" where
  "opens_in_fresh_directory (NetworkFile slug) = plain_name slug"
| "opens_in_fresh_directory (MonitorFile n) = plain_name n"
| "opens_in_fresh_directory (MonitorFileNumbered i) = True"
| "opens_in_fresh_directory (TriggerFile n) = (CHR ''/'' \<notin> set n)"

definition fresh_directory :: file_system where
  "fresh_directory = \<lparr> can_mkdir = True, can_open = opens_in_fresh_directory \<rparr>"

text \<open>
  A run with the file backend: one network file, the release binary, and two polls of
  the tracker before the \<^verbatim>\<open>try\<close> block ends in the given way.
\<close>

definition sample_runner :: runner where
  "sample_runner =
     \<lparr> networks = [], verbose = False, store_blocks = False, use_database = False,
       tenant_id = ''a0eebc99-9c0b-4ef8-bb6d-6bb9bd380a11'' \<rparr>"

definition sample_environment :: "course \<Rightarrow> environment" where
  "sample_environment c =
     \<lparr> connection_at_load = None,
       network_dir = Some [(''ethereum_mainnet'',
          Some (JObj [(''slug'', JStr ''eth''), (''network_type'', JStr ''EVM'')]))],
       connection_at_synthesis = None, disk = fresh_directory,
       release_binary = True, debug_binary = False, local_binary = False,
       marker_polls = [[(''eth'', Some 100, 1)], [(''eth'', Some 105, 2)]],
       try_block = c \<rparr>"

text \<open>A child that needs three seconds to stop, and one that needs a minute.\<close>

definition prompt_child :: child where
  "prompt_child t = (if 3 \<le> t then Exited else TimeoutExpired)"

definition stubborn_child :: child where
  "stubborn_child t = (if 60 \<le> t then Exited else TimeoutExpired)"

text \<open>
  The record that a file of the network directory denotes, with its key: the file's own
  \<^verbatim>\<open>slug\<close>, or the stem of its name. Files that the loop skips denote none.
\<close>

definition file_record :: "config_file \<Rightarrow> (json \<times> pydict) option" where
  "file_record f =
     (case snd f of
        Some (JObj config) \<Rightarrow>
          (let slug = dict_get_default config ''slug'' (JStr (fst f))
           in if hashable slug then Some (slug, config) else None)
      | _ \<Rightarrow> None)"

text \<open>No two keys of the list are equal as dictionary keys.\<close>

fun distinct_keys :: "json list \<Rightarrow> bool" where
  "distinct_keys [] = True"
| "distinct_keys (k # ks) = ((\<forall>k' \<in> set ks. \<not> py_key_eq k k') \<and> distinct_keys ks)"

text \<open>Sample rows, tables and files.\<close>

definition sample_network_row :: "string \<Rightarrow> string \<Rightarrow> bool \<Rightarrow> network_row" where
  "sample_network_row tid slug act =
     \<lparr> n_tenant_id = tid, n_active = act, n_deleted_at = None, n_name = JStr slug,
       n_slug = slug, n_network_type = JStr ''EVM'', n_chain_id = JInt 1,
       n_network_passphrase = JNull, n_rpc_urls = JList [JStr ''https://rpc.example''],
       n_block_time_ms = JInt 12000, n_confirmation_blocks = JInt 12,
       n_cron_schedule = JStr ''0 */1 * * * *'', n_max_past_blocks = JInt 18,
       n_store_blocks = JBool False \<rparr>"

definition sample_database :: "network_row list \<Rightarrow> database" where
  "sample_database tbl =
     \<lparr> networks_table = Some tbl, monitors_table = Some [], triggers_table = Some [],
       email_triggers_table = Some [], webhook_triggers_table = Some [] \<rparr>"

definition sample_files :: "config_file list" where
  "sample_files =
     [(''ethereum_mainnet'', Some (JObj [(''slug'', JStr ''eth''), (''network_type'', JStr ''EVM'')])),
      (''broken'', None),
      (''stellar_mainnet'', Some (JObj [(''network_type'', JStr ''Stellar'')]))]"

text \<open>
  A trigger row has no detail record: its type is neither \<^verbatim>\<open>email\<close> nor \<^verbatim>\<open>webhook\<close>, or the
  table of its type has no row for its id.
\<close>

definition no_detail_record :: "database \<Rightarrow> trigger_row \<Rightarrow> bool" where
  "no_detail_record db row =
     (if t_trigger_type row = ''email'' then
        (case email_triggers_table db of
           None \<Rightarrow> False
         | Some tbl \<Rightarrow> \<forall>e \<in> set tbl. e_trigger_id e \<noteq> t_id row)
      else if t_trigger_type row = ''webhook'' then
        (case webhook_triggers_table db of
           None \<Rightarrow> False
         | Some tbl \<Rightarrow> \<forall>w \<in> set tbl. w_trigger_id w \<noteq> t_id row)
      else True)"

text \<open>
  A runner on the relational backend; a database with one monitor that refers to one
  trigger of a type without detail table; a database whose every query raises.
\<close>

definition database_runner :: runner where
  "database_runner = sample_runner\<lparr> use_database := True \<rparr>"

definition sample_monitor_row :: monitor_row where
  "sample_monitor_row =
     \<lparr> m_tenant_id = ''a0eebc99-9c0b-4ef8-bb6d-6bb9bd380a11'', m_active = True, m_paused = False,
       m_deleted_at = None, m_slug = JStr ''large_transfers'',
       m_networks = JList [JStr ''eth''], m_addresses = JList [],
       m_match_functions = JList [], m_match_events = JList [],
       m_match_transactions = JList [], m_trigger_conditions = JList [],
       m_triggers = JList [JStr ''ops_chat''] \<rparr>"

definition sample_trigger_row :: trigger_row where
  "sample_trigger_row =
     \<lparr> t_id = ''0b1d3c5e-0000-4000-8000-000000000001'',
       t_tenant_id = ''a0eebc99-9c0b-4ef8-bb6d-6bb9bd380a11'', t_active = True,
       t_deleted_at = None, t_name = JStr ''Ops chat'', t_slug = ''ops_chat'',
       t_trigger_type = ''slack'' \<rparr>"

definition trigger_database :: database where
  "trigger_database =
     \<lparr> networks_table = Some [], monitors_table = Some [sample_monitor_row],
       triggers_table = Some [sample_trigger_row],
       email_triggers_table = Some [], webhook_triggers_table = Some [] \<rparr>"


text \<open>Four networks: two of type EVM, one Stellar, and one of neither type.\<close>

definition four_networks :: "(json \<times> pydict) list" where
  "four_networks =
     [(JStr ''ethereum_mainnet'',
         [(''slug'', JStr ''ethereum_mainnet''), (''network_type'', JStr ''EVM'')]),
      (JStr ''stellar_mainnet'',
         [(''slug'', JStr ''stellar_mainnet''), (''network_type'', JStr ''Stellar'')]),
      (JStr ''midnight_testnet'',
         [(''slug'', JStr ''midnight_testnet''), (''network_type'', JStr ''Midnight'')]),
      (JStr ''polygon_mainnet'',
         [(''slug'', JStr ''polygon_mainnet''), (''network_type'', JStr ''EVM'')])]"

text \<open>The files that the synthesis sets out to write, in the order in which it does.\<close>

definition monitor_files :: "runner \<Rightarrow> (json \<times> pydict) list \<Rightarrow> database option \<Rightarrow> written_files" where
  "monitor_files self nets conn =
     (if use_database self \<and>
         fst (returned (load_monitor_and_trigger_configs_from_db self conn)) \<noteq> []
      then write_monitors 0 (fst (returned (load_monitor_and_trigger_configs_from_db self conn)))
      else minimal_monitor_files nets)"

definition trigger_file :: "runner \<Rightarrow> database option \<Rightarrow> config_path \<times> json" where
  "trigger_file self conn =
     (if use_database self \<and>
         snd (returned (load_monitor_and_trigger_configs_from_db self conn)) \<noteq> []
      then (TriggerFile ''database_triggers'',
            JObj (merge_triggers (snd (returned (load_monitor_and_trigger_configs_from_db self conn)))))
      else (TriggerFile ''empty'', JObj []))"

definition synthesis_files :: "runner \<Rightarrow> (json \<times> pydict) list \<Rightarrow> database option \<Rightarrow> written_files" where
  "synthesis_files self nets conn =
     write_networks (store_blocks self) nets @ monitor_files self nets conn @
     [trigger_file self conn]"

text \<open>The keys of the networks of a type, in the order of the dictionary.\<close>

definition slugs_of_type :: "string \<Rightarrow> (json \<times> pydict) list \<Rightarrow> json list" where
  "slugs_of_type t nets =
     concat (map (\<lambda>(slug, cfg). if map_of cfg ''network_type'' = Some (JStr t) then [slug] else [])
               nets)"

text \<open>Two network records, the second with a slug that names a file in a subdirectory.\<close>

definition nested_slug_networks :: "(json \<times> pydict) list" where
  "nested_slug_networks =
     [(JStr ''eth'', [(''slug'', JStr ''eth''), (''store_blocks'', JBool False),
                      (''network_type'', JStr ''EVM'')]),
      (JStr ''a/b'', [(''slug'', JStr ''a/b''), (''store_blocks'', JBool True),
                      (''network_type'', JStr ''EVM'')]),
      (JStr ''xlm'', [(''slug'', JStr ''xlm''), (''network_type'', JStr ''Stellar'')])]"

text \<open>
  An active record of a tenant: a row of the tenant that is active and not deleted.
\<close>

definition active_record :: "string \<Rightarrow> network_row \<Rightarrow> bool" where
  "active_record tid r = (n_tenant_id r = tid \<and> n_active r \<and> n_deleted_at r = None)"

text \<open>
  The network record of a row whose RPC column is the list \<open>rpcs\<close>: the eleven fields in
  order, each the column of its name, with the RPC endpoints normalized, and with
  \<^verbatim>\<open>store_blocks\<close> the row's own when that is truthy and the override otherwise.
\<close>

definition record_of_row :: "bool \<Rightarrow> network_row \<Rightarrow> json list \<Rightarrow> pydict \<Rightarrow> bool" where
  "record_of_row sb r rpcs config =
     (map fst config =
        [''name'', ''slug'', ''network_type'', ''chain_id'', ''network_passphrase'', ''rpc_urls'',
         ''block_time_ms'', ''confirmation_blocks'', ''cron_schedule'', ''max_past_blocks'',
         ''store_blocks''] \<and>
      map_of config ''name'' = Some (n_name r) \<and>
      map_of config ''slug'' = Some (JStr (n_slug r)) \<and>
      map_of config ''network_type'' = Some (n_network_type r) \<and>
      map_of config ''chain_id'' = Some (n_chain_id r) \<and>
      map_of config ''network_passphrase'' = Some (n_network_passphrase r) \<and>
      map_of config ''rpc_urls'' = Some (JList (map format_rpc_url rpcs)) \<and>
      map_of config ''block_time_ms'' = Some (n_block_time_ms r) \<and>
      map_of config ''confirmation_blocks'' = Some (n_confirmation_blocks r) \<and>
      map_of config ''cron_schedule'' = Some (n_cron_schedule r) \<and>
      map_of config ''max_past_blocks'' = Some (n_max_past_blocks r) \<and>
      map_of config ''store_blocks'' =
        Some (if truthy (n_store_blocks r) then n_store_blocks r else JBool sb))"

text \<open>
  A table of four rows of the default tenant and one of another: an EVM network, a
  Stellar network with a weighted endpoint, a deleted network and an inactive one.
\<close>

definition sample_networks_table :: "network_row list" where
  "sample_networks_table =
     [sample_network_row ''a0eebc99-9c0b-4ef8-bb6d-6bb9bd380a11'' ''eth'' True,
      (sample_network_row ''a0eebc99-9c0b-4ef8-bb6d-6bb9bd380a11'' ''gone'' True)
        \<lparr> n_deleted_at := Some ''2024-05-01 00:00:00'' \<rparr>,
      sample_network_row ''a0eebc99-9c0b-4ef8-bb6d-6bb9bd380a11'' ''old'' False,
      sample_network_row ''another-tenant'' ''bsc'' True,
      \<lparr> n_tenant_id = ''a0eebc99-9c0b-4ef8-bb6d-6bb9bd380a11'', n_active = True,
        n_deleted_at = None, n_name = JStr ''Stellar Mainnet'', n_slug = ''xlm'',
        n_network_type = JStr ''Stellar'', n_chain_id = JNull,
        n_network_passphrase = JStr ''Public Global Stellar Network ; September 2015'',
        n_rpc_urls = JList [JObj [(''url'', JStr ''https://horizon.example''),
                                  (''weight'', JInt 30)]],
        n_block_time_ms = JInt 5000, n_confirmation_blocks = JInt 2,
        n_cron_schedule = JStr ''0 */1 * * * *'', n_max_past_blocks = JInt 20,
        n_store_blocks = JBool True \<rparr>]"

fun is_trigger_file :: "config_path \<Rightarrow> bool" where
  "is_trigger_file (TriggerFile n) = True"
| "is_trigger_file (NetworkFile slug) = False"
| "is_trigger_file (MonitorFile n) = False"
| "is_trigger_file (MonitorFileNumbered i) = False"


section \<open>Properties of dictionaries\<close>

lemma map_of_dict_set: "map_of (dict_set d k v) = (map_of d)(k \<mapsto> v)"
  by (induction d) (auto simp: fun_eq_iff)

section \<open>The progress tracker\<close>

lemma update_stats_inv: "stats_inv st \<Longrightarrow> stats_inv (update_stats st network b now)"
  by (auto simp: stats_inv_def update_stats_def map_of_dict_set Let_def
           split: option.splits if_splits)

lemma read_marker_inv: "stats_inv st \<Longrightarrow> stats_inv (read_marker st r)"
  by (cases r) (auto simp: read_marker_def update_stats_inv split: option.splits)

lemma poll_inv: "stats_inv st \<Longrightarrow> stats_inv (foldl read_marker st rs)"
  by (induction rs arbitrary: st) (auto simp: read_marker_inv)

lemma monitor_blocks_inv: "stats_inv st \<Longrightarrow> stats_inv (monitor_blocks st polls)"
  unfolding monitor_blocks_def
  by (induction polls arbitrary: st) (auto simp: poll_inv)

text \<open>
  Claim C1. The tracker starts with no statistics. After any sequence of polls, each
  reading any marker files (readable or not, in any order of block numbers), the
  statistics of every tracked network have \<open>blocks_processed = last_block - first_block\<close>.
  A further read of that network whose number does not exceed \<open>last_block\<close> leaves the
  whole statistics as they are; one that exceeds it becomes the new \<open>last_block\<close>, with
  \<open>first_block\<close> kept and \<open>blocks_processed\<close> recomputed.
\<close>

theorem tracker_blocks_processed:
  assumes "map_of (monitor_blocks [] polls) network = Some s"
  shows "blocks_processed s = last_block s - first_block s \<and>
         (\<forall>b now. b \<le> last_block s \<longrightarrow>
            read_marker (monitor_blocks [] polls) (network, Some b, now) =
              monitor_blocks [] polls) \<and>
         (\<forall>b now. last_block s < b \<longrightarrow>
            map_of (read_marker (monitor_blocks [] polls) (network, Some b, now)) network =
              Some (s\<lparr> last_block := b, blocks_processed := b - first_block s,
                       last_update := now \<rparr>))"
proof -
  have "stats_inv (monitor_blocks [] polls)"
    by (rule monitor_blocks_inv) (simp add: stats_inv_def)
  with assms have "blocks_processed s = last_block s - first_block s"
    by (simp add: stats_inv_def)
  moreover from assms have "\<forall>b now. b \<le> last_block s \<longrightarrow>
      read_marker (monitor_blocks [] polls) (network, Some b, now) = monitor_blocks [] polls"
    by (simp add: read_marker_def update_stats_def)
  moreover from assms have "\<forall>b now. last_block s < b \<longrightarrow>
      map_of (read_marker (monitor_blocks [] polls) (network, Some b, now)) network =
        Some (s\<lparr> last_block := b, blocks_processed := b - first_block s, last_update := now \<rparr>)"
    by (simp add: read_marker_def update_stats_def map_of_dict_set)
  ultimately show ?thesis by blast
qed

theorem tracker_blocks_processed_witness:
  "map_of (monitor_blocks [] [[(''eth'', Some 100, 1)], [(''eth'', Some 105, 2)]]) ''eth'' =
     Some \<lparr> first_block = 100, last_block = 105, blocks_processed = 5, last_update = 2 \<rparr> \<and>
   blocks_processed
     \<lparr> first_block = 100, last_block = 105, blocks_processed = 5, last_update = 2 \<rparr> = 105 - 100 \<and>
   read_marker (monitor_blocks [] [[(''eth'', Some 100, 1)], [(''eth'', Some 105, 2)]])
     (''eth'', Some 103, 3) =
     monitor_blocks [] [[(''eth'', Some 100, 1)], [(''eth'', Some 105, 2)]] \<and>
   map_of (read_marker (monitor_blocks [] [[(''eth'', Some 100, 1)], [(''eth'', Some 105, 2)]])
             (''eth'', Some 110, 3)) ''eth'' =
     Some \<lparr> first_block = 100, last_block = 110, blocks_processed = 10, last_update = 3 \<rparr>"
proof -
  have h: "map_of (monitor_blocks [] [[(''eth'', Some 100, 1)], [(''eth'', Some 105, 2)]]) ''eth'' =
     Some \<lparr> first_block = 100, last_block = 105, blocks_processed = 5, last_update = 2 \<rparr>"
    by (simp add: monitor_blocks_def read_marker_def update_stats_def)
  from tracker_blocks_processed [OF h] h show ?thesis by simp
qed

section \<open>Stopping the child process\<close>

text \<open>
  Claim C4. \<^verbatim>\<open>shutdown\<close> of a started child sends the termination request and waits with
  a timeout of 10 seconds. When the child exits within the timeout, a graceful
  termination is reported and the child is not killed; when the timeout expires, the
  child is killed and a forced termination is reported. Both the interrupt and the
  error handler of \<^verbatim>\<open>run\<close> stop the child in this way. (The runner keeps no state variable:
  Stopped and Killed are the two reports.)
\<close>

theorem graceful_stop_escalation:
  "(p 10 = Exited \<longrightarrow>
      shutdown (Some p) st =
        [Terminate, WaitWithTimeout 10, TerminatedGracefullyMessage] @ shutdown None st \<and>
      Kill \<notin> set (shutdown (Some p) st) \<and>
      KilledForcefullyMessage \<notin> set (shutdown (Some p) st)) \<and>
   (p 10 = TimeoutExpired \<longrightarrow>
      shutdown (Some p) st =
        [Terminate, WaitWithTimeout 10, Kill, KilledForcefullyMessage] @ shutdown None st \<and>
      TerminatedGracefullyMessage \<notin> set (shutdown (Some p) st)) \<and>
   events (supervise self temp st (Interrupted (Some p))) =
     ShuttingDownMessage # shutdown (Some p) st @ cleanup self temp \<and>
   events (supervise self temp st (Failed (Some p))) =
     ErrorMessage # shutdown (Some p) st @ cleanup self temp"
  by (auto simp: shutdown_def supervise_def)

theorem graceful_stop_escalation_witness:
  "prompt_child 10 = Exited \<and>
   shutdown (Some prompt_child) [] = [Terminate, WaitWithTimeout 10, TerminatedGracefullyMessage] \<and>
   stubborn_child 10 = TimeoutExpired \<and>
   shutdown (Some stubborn_child) [] =
     [Terminate, WaitWithTimeout 10, Kill, KilledForcefullyMessage] \<and>
   events (supervise sample_runner True [] (Interrupted (Some stubborn_child))) =
     [ShuttingDownMessage, Terminate, WaitWithTimeout 10, Kill, KilledForcefullyMessage,
      TemporaryDirectoryRemoved]"
proof -
  have a: "prompt_child 10 = Exited" by (simp add: prompt_child_def)
  have b: "stubborn_child 10 = TimeoutExpired" by (simp add: stubborn_child_def)
  have c: "shutdown None [] = []" by (simp add: shutdown_def)
  have d: "cleanup sample_runner True = [TemporaryDirectoryRemoved]"
    by (simp add: cleanup_def sample_runner_def)
  from graceful_stop_escalation [of prompt_child "[]" sample_runner True]
    graceful_stop_escalation [of stubborn_child "[]" sample_runner True] a b c d
  show ?thesis by simp
qed

section \<open>The end of a run\<close>

text \<open>
  Claim C5, as stated: a nonzero exit code of a child that ends by itself becomes a
  nonzero status of the runner. In the run below the child exits with code 3; the
  runner removes its temporary directory, reports nothing, and ends with status 0.
\<close>

theorem child_exit_code_counterexample:
  "run sample_runner (sample_environment (ChildExits 3)) =
     \<lparr> events = [TemporaryDirectoryRemoved], status = 0 \<rparr>"
  by (simp add: run_def sample_runner_def sample_environment_def load_network_configs_def
        load_network_configs_from_files_def load_file_def dict_get_default_def slug_in_def
        create_minimal_configs_def build_command_def supervise_def cleanup_def
        write_networks_def network_copy_def create_minimal_monitor_configs_def
        minimal_monitor_files_def networks_of_type_def fresh_directory_def Let_def)

text \<open>
  Claim C5, amended. When the child process exits on its own, the runner discards the
  exit code: the whole outcome of the run is the one for exit code 0, that is, the
  clean-up alone and status 0. The status of the runner is 0 after an interrupt too, and
  1 after a supervising error.
\<close>

theorem child_exit_code_discarded:
  "run self (env\<lparr> try_block := ChildExits code \<rparr>) =
     run self (env\<lparr> try_block := ChildExits 0 \<rparr>) \<and>
   supervise self temp st (ChildExits code) = \<lparr> events = cleanup self temp, status = 0 \<rparr> \<and>
   status (supervise self temp st (Interrupted process)) = 0 \<and>
   status (supervise self temp st (Failed process)) = 1"
  by (simp add: run_def supervise_def Let_def split: sum.splits sys_exit.splits)

theorem child_exit_code_discarded_witness:
  "run sample_runner (sample_environment (ChildExits 7)) =
     run sample_runner (sample_environment (ChildExits 0)) \<and>
   supervise sample_runner True [] (ChildExits 7) =
     \<lparr> events = [TemporaryDirectoryRemoved], status = 0 \<rparr>"
  using child_exit_code_discarded
    [where self = sample_runner and env = "sample_environment (ChildExits 1)" and code = 7
       and temp = True and st = "[]" and process = None]
  by (simp add: sample_environment_def sample_runner_def cleanup_def)

text \<open>
  Claim C6 at a run that ends with the child's own exit. The tracker has collected
  statistics for one network, and nothing but the removal of the temporary directory
  follows the child's exit: no final statistics are printed. The same run ended by an
  interrupt or by a supervising error prints them.
\<close>

theorem final_statistics_missing_on_child_exit:
  "monitor_blocks [] (marker_polls (sample_environment (ChildExits 0))) =
     [(''eth'', \<lparr> first_block = 100, last_block = 105, blocks_processed = 5, last_update = 2 \<rparr>)] \<and>
   events (run sample_runner (sample_environment (ChildExits 0))) = [TemporaryDirectoryRemoved] \<and>
   events (run sample_runner (sample_environment (Interrupted None))) =
     [ShuttingDownMessage, FinalStatistics [(''eth'', 5, 105, 2)], TemporaryDirectoryRemoved] \<and>
   events (run sample_runner (sample_environment (Failed None))) =
     [ErrorMessage, FinalStatistics [(''eth'', 5, 105, 2)], TemporaryDirectoryRemoved]"
  by (simp add: run_def sample_runner_def sample_environment_def load_network_configs_def
        load_network_configs_from_files_def load_file_def dict_get_default_def slug_in_def
        create_minimal_configs_def build_command_def supervise_def cleanup_def
        write_networks_def network_copy_def create_minimal_monitor_configs_def
        minimal_monitor_files_def networks_of_type_def fresh_directory_def shutdown_def Let_def
        monitor_blocks_def read_marker_def update_stats_def)

section \<open>Writing files\<close>

lemma write_files_eq:
  "write_files ok fs = (takeWhile (\<lambda>f. ok (fst f)) fs, list_all (\<lambda>f. ok (fst f)) fs)"
  by (induction fs) auto

lemma takeWhile_append_all:
  "takeWhile P (xs @ ys) = (if list_all P xs then xs @ takeWhile P ys else takeWhile P xs)"
  by (induction xs) auto

lemma takeWhile_all: "list_all P xs \<Longrightarrow> takeWhile P xs = xs"
  by (induction xs) auto

lemma synthesis_written:
  "written (create_minimal_configs self fs nets conn) =
     (if can_mkdir fs
      then takeWhile (\<lambda>f. can_open fs (fst f)) (synthesis_files self nets conn)
      else [])"
  by (simp add: create_minimal_configs_def create_minimal_monitor_configs_def write_files_eq
        synthesis_files_def monitor_files_def trigger_file_def takeWhile_append_all Let_def
        takeWhile_all)

lemma synthesis_completed:
  "completed (create_minimal_configs self fs nets conn) =
     (can_mkdir fs \<and> list_all (\<lambda>f. can_open fs (fst f)) (synthesis_files self nets conn))"
  by (simp add: create_minimal_configs_def create_minimal_monitor_configs_def write_files_eq
        synthesis_files_def monitor_files_def trigger_file_def Let_def)

lemma synthesis_completed_written:
  "completed (create_minimal_configs self fs nets conn) \<Longrightarrow>
   written (create_minimal_configs self fs nets conn) = synthesis_files self nets conn"
  by (simp add: synthesis_written synthesis_completed takeWhile_all)

lemma synthesis_reported_failed_networks:
  "\<not> list_all (\<lambda>f. can_open fs (fst f)) (write_networks (store_blocks self) nets) \<Longrightarrow>
   reported (create_minimal_configs self fs nets conn) = []"
  by (simp add: create_minimal_configs_def write_files_eq Let_def)



section \<open>RPC endpoints\<close>

lemma format_rpc_url_shape:
  "\<exists>v w. format_rpc_url x = rpc_entry v w"
  by (cases x) (auto split: option.splits json.splits)

lemma format_rpc_url_entry:
  "format_rpc_url (rpc_entry v w) = rpc_entry v w"
  by (simp add: rpc_entry_def dict_get_default_def)

lemma format_rpc_url_idem:
  "format_rpc_url (format_rpc_url x) = format_rpc_url x"
proof -
  obtain v w where "format_rpc_url x = rpc_entry v w"
    using format_rpc_url_shape by blast
  then show ?thesis by (simp add: format_rpc_url_entry)
qed

lemma network_config_of_row_rpc_urls:
  assumes "n_rpc_urls row = JList rpcs" and "rpcs \<noteq> []"
  shows "\<exists>config. network_config_of_row sb row = Some config \<and>
           map_of config ''rpc_urls'' = Some (JList (map format_rpc_url rpcs))"
  using assms by (simp add: network_config_of_row_def)

text \<open>
  Claim C2. Every entry of the RPC-endpoint column of a network row is normalized to
  the canonical shape \<^verbatim>\<open>{type_: "rpc", url: {type: "plain", value}, weight}\<close>. A plain string
  becomes the value, with weight 100. A flat object (its \<^verbatim>\<open>url\<close> is no object with a
  \<^verbatim>\<open>value\<close>) gives its \<^verbatim>\<open>url\<close> as the value, and a nested object the \<^verbatim>\<open>value\<close> of its \<^verbatim>\<open>url\<close>;
  both keep their own weight, and get 100 when they have none. Whatever the entry is,
  the result has the canonical shape, and normalizing it again gives the same value;
  the column of a loaded row holds the normalized entries.
\<close>

theorem rpc_normalization_canonical_idempotent:
  "format_rpc_url (JStr s) =
     JObj [(''type_'', JStr ''rpc''),
           (''url'', JObj [(''type'', JStr ''plain''), (''value'', JStr s)]),
           (''weight'', JInt 100)] \<and>
   (map_of flat ''url'' = Some url \<and> (\<forall>u. url = JObj u \<longrightarrow> map_of u ''value'' = None) \<longrightarrow>
      format_rpc_url (JObj flat) =
        JObj [(''type_'', JStr ''rpc''),
              (''url'', JObj [(''type'', JStr ''plain''), (''value'', url)]),
              (''weight'', (case map_of flat ''weight'' of None \<Rightarrow> JInt 100 | Some w \<Rightarrow> w))]) \<and>
   (map_of nested ''url'' = Some (JObj u) \<and> map_of u ''value'' = Some v \<longrightarrow>
      format_rpc_url (JObj nested) =
        JObj [(''type_'', JStr ''rpc''),
              (''url'', JObj [(''type'', JStr ''plain''), (''value'', v)]),
              (''weight'', (case map_of nested ''weight'' of None \<Rightarrow> JInt 100 | Some w \<Rightarrow> w))]) \<and>
   (\<exists>v' w'. format_rpc_url x =
        JObj [(''type_'', JStr ''rpc''),
              (''url'', JObj [(''type'', JStr ''plain''), (''value'', v')]),
              (''weight'', w')]) \<and>
   format_rpc_url (format_rpc_url x) = format_rpc_url x \<and>
   (n_rpc_urls row = JList rpcs \<and> rpcs \<noteq> [] \<longrightarrow>
      (\<exists>config. network_config_of_row sb row = Some config \<and>
         map_of config ''rpc_urls'' = Some (JList (map format_rpc_url rpcs))))"
proof -
  have a: "map_of flat ''url'' = Some url \<and> (\<forall>u. url = JObj u \<longrightarrow> map_of u ''value'' = None) \<longrightarrow>
      format_rpc_url (JObj flat) =
        JObj [(''type_'', JStr ''rpc''),
              (''url'', JObj [(''type'', JStr ''plain''), (''value'', url)]),
              (''weight'', (case map_of flat ''weight'' of None \<Rightarrow> JInt 100 | Some w \<Rightarrow> w))]"
    by (cases url) (auto simp: rpc_entry_def dict_get_default_def)
  have b: "map_of nested ''url'' = Some (JObj u) \<and> map_of u ''value'' = Some v \<longrightarrow>
      format_rpc_url (JObj nested) =
        JObj [(''type_'', JStr ''rpc''),
              (''url'', JObj [(''type'', JStr ''plain''), (''value'', v)]),
              (''weight'', (case map_of nested ''weight'' of None \<Rightarrow> JInt 100 | Some w \<Rightarrow> w))]"
    by (simp add: rpc_entry_def dict_get_default_def)
  have c: "\<exists>v' w'. format_rpc_url x =
        JObj [(''type_'', JStr ''rpc''),
              (''url'', JObj [(''type'', JStr ''plain''), (''value'', v')]),
              (''weight'', w')]"
    using format_rpc_url_shape [of x] by (simp add: rpc_entry_def)
  have d: "format_rpc_url (JStr s) =
     JObj [(''type_'', JStr ''rpc''),
           (''url'', JObj [(''type'', JStr ''plain''), (''value'', JStr s)]),
           (''weight'', JInt 100)]"
    by (simp add: rpc_entry_def)
  from a b c d format_rpc_url_idem [of x] network_config_of_row_rpc_urls [of row rpcs sb]
  show ?thesis by blast
qed

theorem rpc_normalization_canonical_idempotent_witness:
  "format_rpc_url (JStr ''https://a.example'') =
     JObj [(''type_'', JStr ''rpc''),
           (''url'', JObj [(''type'', JStr ''plain''), (''value'', JStr ''https://a.example'')]),
           (''weight'', JInt 100)] \<and>
   format_rpc_url (JObj [(''url'', JStr ''https://a.example''), (''weight'', JInt 50)]) =
     JObj [(''type_'', JStr ''rpc''),
           (''url'', JObj [(''type'', JStr ''plain''), (''value'', JStr ''https://a.example'')]),
           (''weight'', JInt 50)] \<and>
   format_rpc_url (JObj [(''url'', JObj [(''value'', JStr ''https://b.example'')])]) =
     JObj [(''type_'', JStr ''rpc''),
           (''url'', JObj [(''type'', JStr ''plain''), (''value'', JStr ''https://b.example'')]),
           (''weight'', JInt 100)] \<and>
   format_rpc_url (format_rpc_url (JObj [(''url'', JObj [(''value'', JStr ''https://b.example'')])])) =
     JObj [(''type_'', JStr ''rpc''),
           (''url'', JObj [(''type'', JStr ''plain''), (''value'', JStr ''https://b.example'')]),
           (''weight'', JInt 100)] \<and>
   (\<exists>config.
      network_config_of_row False
        (sample_network_row ''a0eebc99-9c0b-4ef8-bb6d-6bb9bd380a11'' ''eth'' True) = Some config \<and>
      map_of config ''rpc_urls'' =
        Some (JList [JObj [(''type_'', JStr ''rpc''),
                           (''url'', JObj [(''type'', JStr ''plain''),
                                           (''value'', JStr ''https://rpc.example'')]),
                           (''weight'', JInt 100)]]))"
proof -
  have r: "n_rpc_urls (sample_network_row ''a0eebc99-9c0b-4ef8-bb6d-6bb9bd380a11'' ''eth'' True) =
             JList [JStr ''https://rpc.example'']"
    by (simp add: sample_network_row_def)
  from rpc_normalization_canonical_idempotent
    [where s = "''https://a.example''"
       and flat = "[(''url'', JStr ''https://a.example''), (''weight'', JInt 50)]"
       and url = "JStr ''https://a.example''"
       and nested = "[(''url'', JObj [(''value'', JStr ''https://b.example'')])]"
       and u = "[(''value'', JStr ''https://b.example'')]"
       and v = "JStr ''https://b.example''"
       and x = "JObj [(''url'', JObj [(''value'', JStr ''https://b.example'')])]"
       and row = "sample_network_row ''a0eebc99-9c0b-4ef8-bb6d-6bb9bd380a11'' ''eth'' True"
       and rpcs = "[JStr ''https://rpc.example'']" and sb = False] r
  show ?thesis by (simp add: rpc_entry_def dict_get_default_def)
qed

section \<open>Default monitors\<close>

lemma set_map_filter: "set (List.map_filter f xs) = {y. \<exists>x \<in> set xs. f x = Some y}"
  by (induction xs) (auto split: option.splits)

lemma network_types_iff:
  "t \<in> network_types nets \<longleftrightarrow> (\<exists>(slug, cfg) \<in> set nets. map_of cfg ''network_type'' = Some t)"
  by (auto simp: network_types_def set_map_filter split: prod.splits)

lemma networks_of_type_slugs: "networks_of_type t nets = slugs_of_type t nets"
  by (induction nets) (auto simp: networks_of_type_def slugs_of_type_def)

lemma networks_of_type_nonempty:
  "networks_of_type t nets \<noteq> [] \<longleftrightarrow> JStr t \<in> network_types nets"
  by (auto simp: networks_of_type_def network_types_iff filter_empty_conv)

lemma minimal_monitor_count:
  "length (minimal_monitor_files nets) =
     card (network_types nets \<inter> {JStr ''EVM'', JStr ''Stellar''})"
  by (auto simp: minimal_monitor_files_def Let_def networks_of_type_nonempty)

lemma filter_write_networks_monitor:
  "filter (\<lambda>f. is_monitor_file (fst f)) (write_networks sb nets) = []"
  by (induction nets) (auto simp: write_networks_def)

lemma filter_minimal_monitor:
  "filter (\<lambda>f. is_monitor_file (fst f)) (minimal_monitor_files nets) = minimal_monitor_files nets"
  by (simp add: minimal_monitor_files_def Let_def)

lemma is_monitor_file_trigger_file: "\<not> is_monitor_file (fst (trigger_file self conn))"
  by (simp add: trigger_file_def)

lemma synthesized_default_monitors:
  assumes "completed (create_minimal_configs self fs nets conn)"
    and "\<not> use_database self \<or>
         fst (returned (load_monitor_and_trigger_configs_from_db self conn)) = []"
  shows "filter (\<lambda>f. is_monitor_file (fst f)) (written (create_minimal_configs self fs nets conn)) =
           minimal_monitor_files nets"
proof -
  from assms(2) have "monitor_files self nets conn = minimal_monitor_files nets"
    by (auto simp: monitor_files_def)
  with assms(1) show ?thesis
    by (simp add: synthesis_completed_written synthesis_files_def filter_write_networks_monitor
          filter_minimal_monitor is_monitor_file_trigger_file)
qed

text \<open>
  Claim C3, as stated: with no monitor supplied, one default monitor is written for
  every distinct network type present. It fails for the three networks above: their
  types are EVM, Stellar and Midnight, and two monitors are built and written, none of
  which lists the Midnight network.
\<close>

theorem default_monitor_per_type_counterexample:
  "card (network_types three_networks) = 3 \<and>
   length (fst (create_minimal_monitor_configs fresh_directory three_networks)) = 2 \<and>
   length (fst (create_minimal_monitor_configs fresh_directory three_networks)) \<noteq>
     card (network_types three_networks) \<and>
   map fst (fst (create_minimal_monitor_configs fresh_directory three_networks)) =
     [MonitorFile (JStr ''blockwatcher_evm''), MonitorFile (JStr ''blockwatcher_stellar'')] \<and>
   snd (create_minimal_monitor_configs fresh_directory three_networks)"
  by (simp add: three_networks_def create_minimal_monitor_configs_def minimal_monitor_files_def
        networks_of_type_def network_types_def fresh_directory_def)

text \<open>
  Claim C3, amended. With no monitor supplied, one default monitor is built for each of
  the two network types EVM and Stellar that is present, and none for any other type:
  the number of default monitors is the number of the types present among EVM and
  Stellar. The monitor of a type lists all networks of that type, in the order of the
  dictionary, and watches the zero address (EVM) or the burn address (Stellar); each
  matches successful transactions with no expression, and has an empty trigger list.
  The monitors are written when their files can be opened, and they are exactly the
  monitor files of a synthesis that completes, with the file backend and with the
  relational backend when it supplies no monitor.
\<close>

theorem default_monitor_per_supported_type:
  "length (minimal_monitor_files nets) =
     card (network_types nets \<inter> {JStr ''EVM'', JStr ''Stellar''}) \<and>
   (JStr ''EVM'' \<in> network_types nets \<longrightarrow>
      (\<exists>m. (MonitorFile (JStr ''blockwatcher_evm''), m) \<in> set (minimal_monitor_files nets) \<and>
           field ''name'' m = Some (JStr ''blockwatcher_evm'') \<and>
           field ''networks'' m = Some (JList (slugs_of_type ''EVM'' nets)))) \<and>
   (JStr ''Stellar'' \<in> network_types nets \<longrightarrow>
      (\<exists>m. (MonitorFile (JStr ''blockwatcher_stellar''), m) \<in> set (minimal_monitor_files nets) \<and>
           field ''name'' m = Some (JStr ''blockwatcher_stellar'') \<and>
           field ''networks'' m = Some (JList (slugs_of_type ''Stellar'' nets)))) \<and>
   (\<forall>(path, m) \<in> set (minimal_monitor_files nets).
      minimal_watch m \<and>
      (field ''addresses'' m =
         Some (JList [JObj [(''address'', JStr ''0x0000000000000000000000000000000000000000'')]]) \<and>
       field ''networks'' m = Some (JList (slugs_of_type ''EVM'' nets)) \<or>
       field ''addresses'' m =
         Some (JList [JObj [(''address'',
                 JStr ''GAAAAAAAAAAAAAAAAAAAAAAAAAAAAAAAAAAAAAAAAAAAAAAAAAAAAWHF'')]]) \<and>
       field ''networks'' m = Some (JList (slugs_of_type ''Stellar'' nets)))) \<and>
   ((\<forall>f \<in> set (minimal_monitor_files nets). can_open fs (fst f)) \<longrightarrow>
      create_minimal_monitor_configs fs nets = (minimal_monitor_files nets, True)) \<and>
   (completed (create_minimal_configs self fs nets conn) \<and>
    (\<not> use_database self \<or>
     fst (returned (load_monitor_and_trigger_configs_from_db self conn)) = []) \<longrightarrow>
      filter (\<lambda>f. is_monitor_file (fst f)) (written (create_minimal_configs self fs nets conn)) =
        minimal_monitor_files nets)"
proof -
  have a: "\<forall>(path, m) \<in> set (minimal_monitor_files nets).
      minimal_watch m \<and>
      (field ''addresses'' m =
         Some (JList [JObj [(''address'', JStr ''0x0000000000000000000000000000000000000000'')]]) \<and>
       field ''networks'' m = Some (JList (slugs_of_type ''EVM'' nets)) \<or>
       field ''addresses'' m =
         Some (JList [JObj [(''address'',
                 JStr ''GAAAAAAAAAAAAAAAAAAAAAAAAAAAAAAAAAAAAAAAAAAAAAAAAAAAAWHF'')]]) \<and>
       field ''networks'' m = Some (JList (slugs_of_type ''Stellar'' nets)))"
    by (auto simp: minimal_monitor_files_def Let_def)
       (simp_all add: evm_monitor_def stellar_monitor_def field_def minimal_watch_def
          networks_of_type_slugs)
  have b: "JStr ''EVM'' \<in> network_types nets \<longrightarrow>
      (\<exists>m. (MonitorFile (JStr ''blockwatcher_evm''), m) \<in> set (minimal_monitor_files nets) \<and>
           field ''name'' m = Some (JStr ''blockwatcher_evm'') \<and>
           field ''networks'' m = Some (JList (slugs_of_type ''EVM'' nets)))"
  proof
    assume "JStr ''EVM'' \<in> network_types nets"
    then have "(MonitorFile (JStr ''blockwatcher_evm''), evm_monitor (networks_of_type ''EVM'' nets))
                 \<in> set (minimal_monitor_files nets)"
      by (simp add: minimal_monitor_files_def Let_def networks_of_type_nonempty)
    moreover have "field ''name'' (evm_monitor (networks_of_type ''EVM'' nets)) =
                     Some (JStr ''blockwatcher_evm'')"
      and "field ''networks'' (evm_monitor (networks_of_type ''EVM'' nets)) =
             Some (JList (slugs_of_type ''EVM'' nets))"
      by (simp_all add: evm_monitor_def field_def networks_of_type_slugs)
    ultimately show "\<exists>m. (MonitorFile (JStr ''blockwatcher_evm''), m) \<in> set (minimal_monitor_files nets) \<and>
           field ''name'' m = Some (JStr ''blockwatcher_evm'') \<and>
           field ''networks'' m = Some (JList (slugs_of_type ''EVM'' nets))"
      by blast
  qed
  have c: "JStr ''Stellar'' \<in> network_types nets \<longrightarrow>
      (\<exists>m. (MonitorFile (JStr ''blockwatcher_stellar''), m) \<in> set (minimal_monitor_files nets) \<and>
           field ''name'' m = Some (JStr ''blockwatcher_stellar'') \<and>
           field ''networks'' m = Some (JList (slugs_of_type ''Stellar'' nets)))"
  proof
    assume "JStr ''Stellar'' \<in> network_types nets"
    then have "(MonitorFile (JStr ''blockwatcher_stellar''),
                stellar_monitor (networks_of_type ''Stellar'' nets))
                 \<in> set (minimal_monitor_files nets)"
      by (simp add: minimal_monitor_files_def Let_def networks_of_type_nonempty)
    moreover have "field ''name'' (stellar_monitor (networks_of_type ''Stellar'' nets)) =
                     Some (JStr ''blockwatcher_stellar'')"
      and "field ''networks'' (stellar_monitor (networks_of_type ''Stellar'' nets)) =
             Some (JList (slugs_of_type ''Stellar'' nets))"
      by (simp_all add: stellar_monitor_def field_def networks_of_type_slugs)
    ultimately show "\<exists>m. (MonitorFile (JStr ''blockwatcher_stellar''), m)
                            \<in> set (minimal_monitor_files nets) \<and>
           field ''name'' m = Some (JStr ''blockwatcher_stellar'') \<and>
           field ''networks'' m = Some (JList (slugs_of_type ''Stellar'' nets))"
      by blast
  qed
  have d: "(\<forall>f \<in> set (minimal_monitor_files nets). can_open fs (fst f)) \<longrightarrow>
      create_minimal_monitor_configs fs nets = (minimal_monitor_files nets, True)"
    by (simp add: create_minimal_monitor_configs_def write_files_eq takeWhile_all list_all_iff)
  have e: "completed (create_minimal_configs self fs nets conn) \<and>
    (\<not> use_database self \<or>
     fst (returned (load_monitor_and_trigger_configs_from_db self conn)) = []) \<longrightarrow>
      filter (\<lambda>f. is_monitor_file (fst f)) (written (create_minimal_configs self fs nets conn)) =
        minimal_monitor_files nets"
    using synthesized_default_monitors [of self fs nets conn] by blast
  from minimal_monitor_count [of nets] a b c d e show ?thesis by blast
qed

theorem default_monitor_per_supported_type_witness:
  "JStr ''EVM'' \<in> network_types four_networks \<and>
   JStr ''Stellar'' \<in> network_types four_networks \<and>
   create_minimal_monitor_configs fresh_directory four_networks =
     ([(MonitorFile (JStr ''blockwatcher_evm''),
        JObj [(''name'', JStr ''blockwatcher_evm''),
              (''paused'', JBool False),
              (''networks'', JList [JStr ''ethereum_mainnet'', JStr ''polygon_mainnet'']),
              (''addresses'',
                 JList [JObj [(''address'', JStr ''0x0000000000000000000000000000000000000000'')]]),
              (''match_conditions'',
                 JObj [(''functions'', JList []),
                       (''events'', JList []),
                       (''transactions'',
                          JList [JObj [(''status'', JStr ''Success''), (''expression'', JNull)]])]),
              (''trigger_conditions'', JList []),
              (''triggers'', JList [])]),
       (MonitorFile (JStr ''blockwatcher_stellar''),
        JObj [(''name'', JStr ''blockwatcher_stellar''),
              (''paused'', JBool False),
              (''networks'', JList [JStr ''stellar_mainnet'']),
              (''addresses'',
                 JList [JObj [(''address'',
                   JStr ''GAAAAAAAAAAAAAAAAAAAAAAAAAAAAAAAAAAAAAAAAAAAAAAAAAAAAWHF'')]]),
              (''match_conditions'',
                 JObj [(''functions'', JList []),
                       (''events'', JList []),
                       (''transactions'',
                          JList [JObj [(''status'', JStr ''Success''), (''expression'', JNull)]])]),
              (''trigger_conditions'', JList []),
              (''triggers'', JList [])])], True) \<and>
   completed (create_minimal_configs sample_runner fresh_directory four_networks None) \<and>
   map fst (written (create_minimal_configs sample_runner fresh_directory four_networks None)) =
     [NetworkFile (JStr ''ethereum_mainnet''), NetworkFile (JStr ''stellar_mainnet''),
      NetworkFile (JStr ''midnight_testnet''), NetworkFile (JStr ''polygon_mainnet''),
      MonitorFile (JStr ''blockwatcher_evm''), MonitorFile (JStr ''blockwatcher_stellar''),
      TriggerFile ''empty'']"
proof -
  note defs = four_networks_def minimal_monitor_files_def networks_of_type_def network_types_def
    fresh_directory_def sample_runner_def evm_monitor_def stellar_monitor_def
    create_minimal_monitor_configs_def
  have c: "completed (create_minimal_configs sample_runner fresh_directory four_networks None)"
    by (simp add: synthesis_completed synthesis_files_def monitor_files_def trigger_file_def
          write_networks_def defs)
  have w: "map fst (written (create_minimal_configs sample_runner fresh_directory four_networks None)) =
     [NetworkFile (JStr ''ethereum_mainnet''), NetworkFile (JStr ''stellar_mainnet''),
      NetworkFile (JStr ''midnight_testnet''), NetworkFile (JStr ''polygon_mainnet''),
      MonitorFile (JStr ''blockwatcher_evm''), MonitorFile (JStr ''blockwatcher_stellar''),
      TriggerFile ''empty'']"
    using c by (simp add: synthesis_completed_written synthesis_files_def monitor_files_def
          trigger_file_def write_networks_def defs)
  from default_monitor_per_supported_type
         [where nets = four_networks and fs = fresh_directory and self = sample_runner
            and conn = None] c w
  show ?thesis by (simp add: defs)
qed

section \<open>Network files of the synthesis\<close>

lemma set_takeWhile_subset: "set (takeWhile P xs) \<subseteq> set xs"
  by (auto dest: set_takeWhileD)

lemma filter_takeWhile_network_files:
  "filter (\<lambda>f. is_network_file (fst f))
     (takeWhile (\<lambda>f. ok (fst f)) (write_networks sb nets @ rest)) =
   (if list_all (\<lambda>f. ok (fst f)) (write_networks sb nets)
    then write_networks sb nets @
         filter (\<lambda>f. is_network_file (fst f)) (takeWhile (\<lambda>f. ok (fst f)) rest)
    else takeWhile (\<lambda>f. ok (fst f)) (write_networks sb nets))"
proof -
  have n: "\<And>xs. set xs \<subseteq> set (write_networks sb nets) \<Longrightarrow>
             filter (\<lambda>f. is_network_file (fst f)) xs = xs"
    by (rule filter_True) (auto simp: write_networks_def)
  have "set (takeWhile (\<lambda>f. ok (fst f)) (write_networks sb nets)) \<subseteq> set (write_networks sb nets)"
    by (rule set_takeWhile_subset)
  with n show ?thesis by (simp add: takeWhile_append_all)
qed

lemma filter_write_monitors_network:
  "filter (\<lambda>f. is_network_file (fst f)) (write_monitors i ms) = []"
  by (induction ms arbitrary: i) (auto split: option.splits)

lemma filter_minimal_network:
  "filter (\<lambda>f. is_network_file (fst f)) (minimal_monitor_files nets) = []"
  by (simp add: minimal_monitor_files_def Let_def)

lemma no_network_file_after:
  "filter (\<lambda>f. is_network_file (fst f)) (monitor_files self nets conn @ [trigger_file self conn]) = []"
  by (simp add: monitor_files_def trigger_file_def filter_write_monitors_network
        filter_minimal_network)

lemma takeWhile_write_networks:
  "takeWhile (\<lambda>f. ok (fst f)) (write_networks sb nets) =
     write_networks sb (takeWhile (\<lambda>(slug, config). ok (NetworkFile slug)) nets)"
  by (induction nets) (auto simp: write_networks_def)

lemma list_all_write_networks:
  "list_all (\<lambda>f. ok (fst f)) (write_networks sb nets) =
     list_all (\<lambda>(slug, config). ok (NetworkFile slug)) nets"
  by (induction nets) (auto simp: write_networks_def)

lemma synthesized_network_files:
  "filter (\<lambda>f. is_network_file (fst f)) (written (create_minimal_configs self fs nets conn)) =
     (if can_mkdir fs
      then map (\<lambda>(slug, config). (NetworkFile slug, JObj (network_copy (store_blocks self) config)))
             (takeWhile (\<lambda>(slug, config). can_open fs (NetworkFile slug)) nets)
      else [])"
proof -
  have "filter (\<lambda>f. is_network_file (fst f))
          (takeWhile (\<lambda>f. can_open fs (fst f))
             (monitor_files self nets conn @ [trigger_file self conn])) = []"
  proof -
    have "set (takeWhile (\<lambda>f. can_open fs (fst f))
                 (monitor_files self nets conn @ [trigger_file self conn]))
            \<subseteq> set (monitor_files self nets conn @ [trigger_file self conn])"
      by (rule set_takeWhile_subset)
    moreover from no_network_file_after [of self nets conn]
    have "\<forall>f \<in> set (monitor_files self nets conn @ [trigger_file self conn]).
            \<not> is_network_file (fst f)"
      by (simp only: filter_empty_conv)
    ultimately show ?thesis by (auto simp: filter_empty_conv)
  qed
  then have "filter (\<lambda>f. is_network_file (fst f))
               (written (create_minimal_configs self fs nets conn)) =
     (if can_mkdir fs
      then write_networks (store_blocks self)
             (takeWhile (\<lambda>(slug, config). can_open fs (NetworkFile slug)) nets)
      else [])"
    using filter_takeWhile_network_files
            [of "can_open fs" "store_blocks self" nets
                "monitor_files self nets conn @ [trigger_file self conn]"]
    by (simp add: synthesis_written synthesis_files_def takeWhile_write_networks
          list_all_write_networks takeWhile_all)
  then show ?thesis by (simp add: write_networks_def)
qed

lemma network_config_of_row_store_blocks:
  "network_config_of_row sb row = Some config \<Longrightarrow>
     map_of config ''store_blocks'' = Some (py_or (n_store_blocks row) (JBool sb))"
  by (auto simp: network_config_of_row_def Let_def map_of_dict_set
           split: if_splits option.splits)

text \<open>
  Claim C9. Where the directories can be created, the network files that the synthesis
  writes are, in order, the copies of the network records under their slugs, up to the
  first record whose file cannot be opened: all of them when every file can be opened.
  The copy of a record has \<^verbatim>\<open>store_blocks\<close> true when the override is requested and is
  the record itself when it is not; every other field is the record's. A record whose
  \<^verbatim>\<open>store_blocks\<close> is true keeps it, with or without the override; and a row of the
  relational backend whose \<^verbatim>\<open>store_blocks\<close> is true is loaded with \<^verbatim>\<open>store_blocks\<close> true,
  whatever the override.
\<close>

theorem store_blocks_override_frame:
  "filter (\<lambda>f. is_network_file (fst f)) (written (create_minimal_configs self fs nets conn)) =
     (if can_mkdir fs
      then map (\<lambda>(slug, config). (NetworkFile slug, JObj (network_copy (store_blocks self) config)))
             (takeWhile (\<lambda>(slug, config). can_open fs (NetworkFile slug)) nets)
      else []) \<and>
   (can_mkdir fs \<and> (\<forall>(slug, config) \<in> set nets. can_open fs (NetworkFile slug)) \<longrightarrow>
      filter (\<lambda>f. is_network_file (fst f)) (written (create_minimal_configs self fs nets conn)) =
        map (\<lambda>(slug, config). (NetworkFile slug, JObj (network_copy (store_blocks self) config)))
          nets) \<and>
   (\<forall>k. k \<noteq> ''store_blocks'' \<longrightarrow> map_of (network_copy sb config) k = map_of config k) \<and>
   (sb \<longrightarrow> map_of (network_copy sb config) ''store_blocks'' = Some (JBool True)) \<and>
   (\<not> sb \<longrightarrow> network_copy sb config = config) \<and>
   (map_of config ''store_blocks'' = Some (JBool True) \<longrightarrow>
      map_of (network_copy sb config) ''store_blocks'' = Some (JBool True)) \<and>
   (n_store_blocks row = JBool True \<and> network_config_of_row sb row = Some loaded \<longrightarrow>
      map_of loaded ''store_blocks'' = Some (JBool True) \<and>
      map_of (network_copy sb' loaded) ''store_blocks'' = Some (JBool True))"
proof -
  have a: "can_mkdir fs \<and> (\<forall>(slug, config) \<in> set nets. can_open fs (NetworkFile slug)) \<longrightarrow>
      filter (\<lambda>f. is_network_file (fst f)) (written (create_minimal_configs self fs nets conn)) =
        map (\<lambda>(slug, config). (NetworkFile slug, JObj (network_copy (store_blocks self) config)))
          nets"
  proof
    assume h: "can_mkdir fs \<and> (\<forall>(slug, config) \<in> set nets. can_open fs (NetworkFile slug))"
    then show "filter (\<lambda>f. is_network_file (fst f))
                   (written (create_minimal_configs self fs nets conn)) =
        map (\<lambda>(slug, config). (NetworkFile slug, JObj (network_copy (store_blocks self) config)))
          nets"
      by (simp add: synthesized_network_files takeWhile_all list_all_iff)
  qed
  have b: "(\<forall>k. k \<noteq> ''store_blocks'' \<longrightarrow> map_of (network_copy sb config) k = map_of config k) \<and>
   (sb \<longrightarrow> map_of (network_copy sb config) ''store_blocks'' = Some (JBool True)) \<and>
   (\<not> sb \<longrightarrow> network_copy sb config = config) \<and>
   (map_of config ''store_blocks'' = Some (JBool True) \<longrightarrow>
      map_of (network_copy sb config) ''store_blocks'' = Some (JBool True))"
    by (auto simp: network_copy_def map_of_dict_set)
  have c: "n_store_blocks row = JBool True \<and> network_config_of_row sb row = Some loaded \<longrightarrow>
      map_of loaded ''store_blocks'' = Some (JBool True) \<and>
      map_of (network_copy sb' loaded) ''store_blocks'' = Some (JBool True)"
    using network_config_of_row_store_blocks [of sb row loaded]
    by (auto simp: network_copy_def map_of_dict_set py_or_def)
  from synthesized_network_files [of self fs nets conn] a b c show ?thesis by blast
qed

theorem store_blocks_override_frame_witness:
  "filter (\<lambda>f. is_network_file (fst f))
     (written (create_minimal_configs (sample_runner\<lparr> store_blocks := True \<rparr>) fresh_directory
        [(JStr ''eth'', [(''slug'', JStr ''eth''), (''store_blocks'', JBool False),
                         (''network_type'', JStr ''EVM'')]),
         (JStr ''xlm'', [(''slug'', JStr ''xlm''), (''network_type'', JStr ''Stellar'')])] None)) =
     [(NetworkFile (JStr ''eth''),
       JObj [(''slug'', JStr ''eth''), (''store_blocks'', JBool True),
             (''network_type'', JStr ''EVM'')]),
      (NetworkFile (JStr ''xlm''),
       JObj [(''slug'', JStr ''xlm''), (''network_type'', JStr ''Stellar''),
             (''store_blocks'', JBool True)])] \<and>
   filter (\<lambda>f. is_network_file (fst f))
     (written (create_minimal_configs sample_runner fresh_directory nested_slug_networks None)) =
     [(NetworkFile (JStr ''eth''),
       JObj [(''slug'', JStr ''eth''), (''store_blocks'', JBool False),
             (''network_type'', JStr ''EVM'')])] \<and>
   map_of (network_copy True [(''slug'', JStr ''eth''), (''store_blocks'', JBool False),
                               (''network_type'', JStr ''EVM'')]) ''network_type'' =
     Some (JStr ''EVM'') \<and>
   map_of (network_copy False [(''slug'', JStr ''xlm''), (''store_blocks'', JBool True)])
     ''store_blocks'' = Some (JBool True) \<and>
   network_copy False [(''slug'', JStr ''xlm''), (''store_blocks'', JBool True)] =
     [(''slug'', JStr ''xlm''), (''store_blocks'', JBool True)]"
  using store_blocks_override_frame
    [where self = "sample_runner\<lparr> store_blocks := True \<rparr>" and fs = fresh_directory
       and nets = "[(JStr ''eth'', [(''slug'', JStr ''eth''), (''store_blocks'', JBool False),
                          (''network_type'', JStr ''EVM'')]),
                    (JStr ''xlm'', [(''slug'', JStr ''xlm''), (''network_type'', JStr ''Stellar'')])]"
       and conn = None and sb = True
       and config = "[(''slug'', JStr ''eth''), (''store_blocks'', JBool False),
                      (''network_type'', JStr ''EVM'')]"
       and row = "sample_network_row ''t'' ''eth'' True" and loaded = "[]" and sb' = False]
    store_blocks_override_frame
    [where self = sample_runner and fs = fresh_directory and nets = nested_slug_networks
       and conn = None and sb = False
       and config = "[(''slug'', JStr ''xlm''), (''store_blocks'', JBool True)]"
       and row = "sample_network_row ''t'' ''eth'' True" and loaded = "[]" and sb' = False]
  by (simp add: sample_runner_def network_copy_def fresh_directory_def nested_slug_networks_def)

section \<open>Loading networks\<close>

lemma py_key_eq_refl: "py_key_eq a a"
  by (simp add: py_key_eq_def split: option.splits)

lemma py_key_eq_sym: "py_key_eq a b \<Longrightarrow> py_key_eq b a"
  by (auto simp: py_key_eq_def split: option.splits)

lemma py_key_eq_trans: "py_key_eq a b \<Longrightarrow> py_key_eq b c \<Longrightarrow> py_key_eq a c"
  by (auto simp: py_key_eq_def split: option.splits)

lemma py_key_eq_str: "py_key_eq k (JStr s) \<longleftrightarrow> k = JStr s"
  by (auto simp: py_key_eq_def split: option.splits)

lemma key_mem_iff: "key_mem k d \<longleftrightarrow> (\<exists>k' \<in> fst ` set d. py_key_eq k' k)"
  by (induction d) auto

lemma key_mem_key_set: "key_mem k (key_set d k' v) \<longleftrightarrow> py_key_eq k' k \<or> key_mem k d"
proof (induction d)
  case Nil
  then show ?case by simp
next
  case (Cons p d)
  obtain k1 v1 where p: "p = (k1, v1)" by (cases p)
  show ?case
  proof (cases "py_key_eq k1 k'")
    case True
    then have "py_key_eq k' k \<Longrightarrow> py_key_eq k1 k"
      using py_key_eq_trans by blast
    with True show ?thesis by (auto simp: p)
  next
    case False
    with Cons show ?thesis by (auto simp: p)
  qed
qed

lemma key_set_fresh: "\<not> key_mem k d \<Longrightarrow> key_set d k v = d @ [(k, v)]"
  by (induction d) auto

lemma key_set_not_nil: "key_set d k v \<noteq> []"
  by (cases d) (auto split: if_splits)

lemma key_set_str: "key_set d (JStr s) v = dict_set d (JStr s) v"
  by (induction d) (auto simp: py_key_eq_str)

lemma load_file_record:
  "load_file sel nets f =
     (case file_record f of
        None \<Rightarrow> nets
      | Some (slug, config) \<Rightarrow>
          if sel \<noteq> [] \<and> \<not> slug_in slug sel then nets else key_set nets slug config)"
  by (cases f) (auto simp: load_file_def file_record_def Let_def slug_in_def
                     split: option.splits json.splits)

lemma load_files_none:
  "\<forall>f \<in> set files. \<forall>slug config. file_record f = Some (slug, config) \<longrightarrow>
      sel \<noteq> [] \<and> \<not> slug_in slug sel \<Longrightarrow>
   foldl (load_file sel) nets files = nets"
  by (induction files arbitrary: nets) (auto simp: load_file_record split: option.splits)

lemma load_files_key_mem:
  "key_mem k (foldl (load_file []) nets files) \<longleftrightarrow>
     key_mem k nets \<or>
     (\<exists>f \<in> set files. \<exists>k' c. file_record f = Some (k', c) \<and> py_key_eq k' k)"
  by (induction files arbitrary: nets)
     (auto simp: load_file_record key_mem_key_set split: option.splits)

lemma distinct_keys_append_Cons:
  "distinct_keys (xs @ k # ys) \<Longrightarrow> \<forall>k' \<in> set xs. \<not> py_key_eq k' k"
  by (induction xs) auto

lemma load_files_exact:
  "distinct_keys (map fst nets @ map fst (List.map_filter file_record files)) \<Longrightarrow>
   foldl (load_file []) nets files = nets @ List.map_filter file_record files"
proof (induction files arbitrary: nets)
  case Nil
  then show ?case by simp
next
  case (Cons f files)
  show ?case
  proof (cases "file_record f")
    case None
    with Cons show ?thesis by (simp add: load_file_record)
  next
    case (Some r)
    obtain k c where r: "r = (k, c)" by (cases r)
    from Cons.prems Some r
    have d: "distinct_keys (map fst nets @ k # map fst (List.map_filter file_record files))"
      by simp
    then have "\<not> key_mem k nets"
      using distinct_keys_append_Cons [OF d] by (auto simp: key_mem_iff)
    then have s: "load_file [] nets f = nets @ [(k, c)]"
      by (simp add: load_file_record Some r key_set_fresh)
    from d have "distinct_keys (map fst (nets @ [(k, c)]) @
                   map fst (List.map_filter file_record files))"
      by simp
    from Cons.IH [OF this] s Some r show ?thesis by simp
  qed
qed

lemma key_mem_not_nil: "key_mem k d \<Longrightarrow> d \<noteq> []"
  by auto

lemma files_selection_missing:
  assumes "networks self \<noteq> []"
    and "\<forall>f \<in> set files. \<forall>slug config. file_record f = Some (slug, config) \<longrightarrow>
           \<not> slug_in slug (networks self)"
  shows "load_network_configs_from_files self (Some files) =
           Inl (SysExit (NoMatchingNetworksFound (networks self)) 1)"
proof -
  have "foldl (load_file (networks self)) [] files = []"
    by (rule load_files_none) (use assms in auto)
  with assms(1) show ?thesis by (simp add: load_network_configs_from_files_def)
qed

lemma files_none_exist:
  assumes "networks self = []" and "\<forall>f \<in> set files. file_record f = None"
  shows "load_network_configs_from_files self (Some files) =
           Inl (SysExit NoNetworkConfigurationsFound 1)"
proof -
  have "foldl (load_file (networks self)) [] files = []"
    by (rule load_files_none) (use assms in auto)
  with assms(1) show ?thesis by (simp add: load_network_configs_from_files_def)
qed

lemma files_all_loaded:
  assumes "networks self = []" and "\<exists>f \<in> set files. file_record f \<noteq> None"
  shows "\<exists>nets. load_network_configs_from_files self (Some files) = Inr nets \<and>
           (\<forall>f \<in> set files. \<forall>slug config. file_record f = Some (slug, config) \<longrightarrow>
              key_mem slug nets) \<and>
           (distinct_keys (map fst (List.map_filter file_record files)) \<longrightarrow>
              nets = List.map_filter file_record files)"
proof -
  let ?nets = "foldl (load_file []) [] files"
  have cover: "\<forall>f \<in> set files. \<forall>slug config. file_record f = Some (slug, config) \<longrightarrow>
                 key_mem slug ?nets"
    using py_key_eq_refl by (fastforce simp: load_files_key_mem)
  from assms(2) obtain f slug config where "f \<in> set files" "file_record f = Some (slug, config)"
    by auto
  with cover have "key_mem slug ?nets" by blast
  then have ne: "?nets \<noteq> []" by (rule key_mem_not_nil)
  have exact: "distinct_keys (map fst (List.map_filter file_record files)) \<longrightarrow>
                 ?nets = List.map_filter file_record files"
    using load_files_exact [of "[]" files] by simp
  from ne cover exact assms(1) show ?thesis
    by (simp add: load_network_configs_from_files_def)
qed

lemma py_key_eq_str_left: "py_key_eq (JStr s) k \<longleftrightarrow> k = JStr s"
  by (auto simp: py_key_eq_def split: option.splits)

lemma network_config_of_row_list:
  "n_rpc_urls r = JList rpcs \<Longrightarrow> network_config_of_row sb r \<noteq> None"
  by (simp add: network_config_of_row_def Let_def)

lemma network_rows_loop_keys:
  "\<forall>r \<in> set rows. network_config_of_row sb r \<noteq> None \<Longrightarrow>
   \<exists>nets. network_rows_loop sb acc rows = Some nets \<and>
     (\<forall>k. key_mem k nets \<longleftrightarrow> key_mem k acc \<or> k \<in> (\<lambda>r. JStr (n_slug r)) ` set rows)"
proof (induction rows arbitrary: acc)
  case Nil
  then show ?case by simp
next
  case (Cons row rows)
  then obtain config where c: "network_config_of_row sb row = Some config" by auto
  from Cons.prems have "\<forall>r \<in> set rows. network_config_of_row sb r \<noteq> None" by simp
  from Cons.IH [OF this, of "key_set acc (JStr (n_slug row)) config"] c
  show ?case by (auto simp: key_mem_key_set py_key_eq_str_left)
qed

lemma network_rows_loop_exact:
  "\<forall>r \<in> set rows. network_config_of_row sb r \<noteq> None \<Longrightarrow>
   distinct (map fst acc @ map (\<lambda>r. JStr (n_slug r)) rows) \<Longrightarrow>
   network_rows_loop sb acc rows =
     Some (acc @ map (\<lambda>r. (JStr (n_slug r), the (network_config_of_row sb r))) rows)"
proof (induction rows arbitrary: acc)
  case Nil
  then show ?case by simp
next
  case (Cons row rows)
  then obtain config where c: "network_config_of_row sb row = Some config" by auto
  from Cons.prems(2) have "\<not> key_mem (JStr (n_slug row)) acc"
    by (auto simp: key_mem_iff py_key_eq_str)
  then have s: "key_set acc (JStr (n_slug row)) config = acc @ [(JStr (n_slug row), config)]"
    by (rule key_set_fresh)
  from Cons.prems have a: "\<forall>r \<in> set rows. network_config_of_row sb r \<noteq> None"
    and b: "distinct (map fst (acc @ [(JStr (n_slug row), config)]) @
                      map (\<lambda>r. JStr (n_slug r)) rows)"
    by auto
  from Cons.IH [OF a b] c s show ?case by simp
qed

lemma distinct_map_JStr: "distinct (map (\<lambda>r. JStr (n_slug r)) rows) = distinct (map n_slug rows)"
proof -
  have "map (\<lambda>r. JStr (n_slug r)) rows = map JStr (map n_slug rows)" by simp
  then show ?thesis by (simp only: distinct_map) (simp add: inj_on_def)
qed

lemma select_networks_active:
  "select_networks tid sel tbl =
     filter (\<lambda>r. active_record tid r \<and> (sel = [] \<or> n_slug r \<in> set sel)) tbl"
  by (simp add: select_networks_def active_record_def conj_ac)

lemma network_config_of_row_record:
  "n_rpc_urls r = JList rpcs \<Longrightarrow>
   \<exists>config. network_config_of_row sb r = Some config \<and> record_of_row sb r rpcs config"
  by (cases "rpcs = []")
     (simp_all add: network_config_of_row_def record_of_row_def py_or_def Let_def)

lemma key_mem_str: "key_mem (JStr s) d \<longleftrightarrow> JStr s \<in> fst ` set d"
  by (auto simp: key_mem_iff py_key_eq_str)

lemma key_mem_self: "(k, c) \<in> set d \<Longrightarrow> key_mem k d"
  using py_key_eq_refl by (force simp: key_mem_iff)

lemma db_selection_missing:
  assumes "networks_table db = Some tbl" and "networks self \<noteq> []"
    and "\<forall>r \<in> set tbl. active_record (tenant_id self) r \<longrightarrow> n_slug r \<notin> set (networks self)"
  shows "load_network_configs_from_db self (Some db) =
           Inl (SysExit (NoMatchingNetworksInDatabase (networks self)) 1)"
proof -
  from assms(2,3) have "select_networks (tenant_id self) (networks self) tbl = []"
    by (auto simp: select_networks_active filter_empty_conv)
  with assms(1,2) show ?thesis by (simp add: load_network_configs_from_db_def)
qed

lemma db_none_exist:
  assumes "networks_table db = Some tbl" and "networks self = []"
    and "\<forall>r \<in> set tbl. \<not> active_record (tenant_id self) r"
  shows "load_network_configs_from_db self (Some db) =
           Inl (SysExit NoNetworkConfigurationsInDatabase 1)"
proof -
  from assms(3) have "select_networks (tenant_id self) (networks self) tbl = []"
    by (auto simp: select_networks_active filter_empty_conv)
  with assms(1,2) show ?thesis by (simp add: load_network_configs_from_db_def)
qed

lemma db_all_loaded:
  assumes t: "networks_table db = Some tbl" and e: "networks self = []"
    and ne: "\<exists>r \<in> set tbl. active_record (tenant_id self) r"
    and l: "\<forall>r \<in> set tbl. active_record (tenant_id self) r \<longrightarrow> (\<exists>rpcs. n_rpc_urls r = JList rpcs)"
  shows "\<exists>nets. load_network_configs_from_db self (Some db) = Inr nets \<and>
           (\<forall>r \<in> set tbl. active_record (tenant_id self) r \<longrightarrow>
              (\<exists>config. (JStr (n_slug r), config) \<in> set nets)) \<and>
           (\<forall>(k, c) \<in> set nets.
              \<exists>r \<in> set tbl. active_record (tenant_id self) r \<and> k = JStr (n_slug r)) \<and>
           (distinct (map n_slug (filter (active_record (tenant_id self)) tbl)) \<longrightarrow>
              map fst nets =
                map (\<lambda>r. JStr (n_slug r)) (filter (active_record (tenant_id self)) tbl) \<and>
              (\<forall>r \<in> set tbl. active_record (tenant_id self) r \<longrightarrow>
                 (\<exists>config rpcs. map_of nets (JStr (n_slug r)) = Some config \<and>
                    n_rpc_urls r = JList rpcs \<and>
                    record_of_row (store_blocks self) r rpcs config)))"
proof -
  let ?rows = "filter (active_record (tenant_id self)) tbl"
  let ?sb = "store_blocks self"
  from e have sel: "select_networks (tenant_id self) (networks self) tbl = ?rows"
    by (simp add: select_networks_active)
  from l have ok: "\<forall>r \<in> set ?rows. network_config_of_row ?sb r \<noteq> None"
    using network_config_of_row_list by fastforce
  from network_rows_loop_keys [OF ok, of "[]"] obtain nets
    where n: "network_rows_loop ?sb [] ?rows = Some nets"
      and k: "\<forall>k. key_mem k nets \<longleftrightarrow> k \<in> (\<lambda>r. JStr (n_slug r)) ` set ?rows"
    by auto
  from ne obtain r0 where "r0 \<in> set ?rows" by auto
  with k have "key_mem (JStr (n_slug r0)) nets" by blast
  then have nn: "nets \<noteq> []" by (rule key_mem_not_nil)
  from n nn t e sel have r: "load_network_configs_from_db self (Some db) = Inr nets"
    by (simp add: load_network_configs_from_db_def)
  have cover: "\<forall>r \<in> set tbl. active_record (tenant_id self) r \<longrightarrow>
              (\<exists>config. (JStr (n_slug r), config) \<in> set nets)"
  proof (intro ballI impI)
    fix r assume "r \<in> set tbl" and "active_record (tenant_id self) r"
    then have "JStr (n_slug r) \<in> (\<lambda>r. JStr (n_slug r)) ` set ?rows" by auto
    with k have "key_mem (JStr (n_slug r)) nets" by blast
    then have "JStr (n_slug r) \<in> fst ` set nets" by (simp only: key_mem_str)
    then show "\<exists>config. (JStr (n_slug r), config) \<in> set nets" by force
  qed
  have only: "\<forall>(k, c) \<in> set nets.
              \<exists>r \<in> set tbl. active_record (tenant_id self) r \<and> k = JStr (n_slug r)"
  proof (intro ballI, clarify)
    fix k' c assume "(k', c) \<in> set nets"
    then have "key_mem k' nets" by (rule key_mem_self)
    with k have "k' \<in> (\<lambda>r. JStr (n_slug r)) ` set ?rows" by blast
    then show "\<exists>r \<in> set tbl. active_record (tenant_id self) r \<and> k' = JStr (n_slug r)"
      by auto
  qed
  have x: "distinct (map n_slug ?rows) \<longrightarrow>
              map fst nets = map (\<lambda>r. JStr (n_slug r)) ?rows \<and>
              (\<forall>r \<in> set tbl. active_record (tenant_id self) r \<longrightarrow>
                 (\<exists>config rpcs. map_of nets (JStr (n_slug r)) = Some config \<and>
                    n_rpc_urls r = JList rpcs \<and> record_of_row ?sb r rpcs config))"
  proof
    assume d: "distinct (map n_slug ?rows)"
    then have "distinct (map fst [] @ map (\<lambda>r. JStr (n_slug r)) ?rows)"
      by (simp add: distinct_map_JStr)
    from network_rows_loop_exact [OF ok this] n
    have eq: "nets = map (\<lambda>r. (JStr (n_slug r), the (network_config_of_row ?sb r))) ?rows"
      by simp
    then have keys: "map fst nets = map (\<lambda>r. JStr (n_slug r)) ?rows"
      by (simp add: comp_def)
    with d have dn: "distinct (map fst nets)" by (simp add: distinct_map_JStr)
    have "\<forall>r \<in> set tbl. active_record (tenant_id self) r \<longrightarrow>
                 (\<exists>config rpcs. map_of nets (JStr (n_slug r)) = Some config \<and>
                    n_rpc_urls r = JList rpcs \<and> record_of_row ?sb r rpcs config)"
    proof (intro ballI impI)
      fix r assume rt: "r \<in> set tbl" and ra: "active_record (tenant_id self) r"
      with l obtain rpcs where rp: "n_rpc_urls r = JList rpcs" by blast
      from network_config_of_row_record [OF rp, of ?sb] obtain config
        where c: "network_config_of_row ?sb r = Some config"
          and rec: "record_of_row ?sb r rpcs config" by blast
      from rt ra have "r \<in> set ?rows" by simp
      with eq c have "(JStr (n_slug r), config) \<in> set nets" by force
      with dn have "map_of nets (JStr (n_slug r)) = Some config" by simp
      with rp rec show "\<exists>config rpcs. map_of nets (JStr (n_slug r)) = Some config \<and>
                    n_rpc_urls r = JList rpcs \<and> record_of_row ?sb r rpcs config" by blast
    qed
    with keys show "map fst nets = map (\<lambda>r. JStr (n_slug r)) ?rows \<and>
              (\<forall>r \<in> set tbl. active_record (tenant_id self) r \<longrightarrow>
                 (\<exists>config rpcs. map_of nets (JStr (n_slug r)) = Some config \<and>
                    n_rpc_urls r = JList rpcs \<and> record_of_row ?sb r rpcs config))" by blast
  qed
  from r cover only x show ?thesis by blast
qed

text \<open>
  Claim C7. In either backend, loading ends the process with the diagnostic of a missing
  network (the source's form of a not-found error: a message and \<^verbatim>\<open>sys.exit(1)\<close>) when the
  selection is not empty and no existing record has a requested slug, and when there
  is no record at all. With an empty selection and at least one record, it returns a
  dictionary that has the slug of every record as a key: every loadable file of the
  directory, and every active record of the tenant (its RPC column being a list), and
  no other row. When the slugs are pairwise different, the dictionary is exactly the
  list of the records under their slugs, in order: the files' contents, and for a row
  the record of its columns.
\<close>

theorem load_not_found_or_every_record:
  "(networks self \<noteq> [] \<and>
    (\<forall>f \<in> set files. \<forall>slug config. file_record f = Some (slug, config) \<longrightarrow>
       \<not> slug_in slug (networks self)) \<longrightarrow>
      load_network_configs_from_files self (Some files) =
        Inl (SysExit (NoMatchingNetworksFound (networks self)) 1)) \<and>
   (networks self = [] \<and> (\<forall>f \<in> set files. file_record f = None) \<longrightarrow>
      load_network_configs_from_files self (Some files) =
        Inl (SysExit NoNetworkConfigurationsFound 1)) \<and>
   (networks self = [] \<and> (\<exists>f \<in> set files. file_record f \<noteq> None) \<longrightarrow>
      (\<exists>nets. load_network_configs_from_files self (Some files) = Inr nets \<and>
         (\<forall>f \<in> set files. \<forall>slug config. file_record f = Some (slug, config) \<longrightarrow>
            key_mem slug nets) \<and>
         (distinct_keys (map fst (List.map_filter file_record files)) \<longrightarrow>
            nets = List.map_filter file_record files))) \<and>
   (networks_table db = Some tbl \<and> networks self \<noteq> [] \<and>
    (\<forall>r \<in> set tbl. active_record (tenant_id self) r \<longrightarrow> n_slug r \<notin> set (networks self)) \<longrightarrow>
      load_network_configs_from_db self (Some db) =
        Inl (SysExit (NoMatchingNetworksInDatabase (networks self)) 1)) \<and>
   (networks_table db = Some tbl \<and> networks self = [] \<and>
    (\<forall>r \<in> set tbl. \<not> active_record (tenant_id self) r) \<longrightarrow>
      load_network_configs_from_db self (Some db) =
        Inl (SysExit NoNetworkConfigurationsInDatabase 1)) \<and>
   (networks_table db = Some tbl \<and> networks self = [] \<and>
    (\<exists>r \<in> set tbl. active_record (tenant_id self) r) \<and>
    (\<forall>r \<in> set tbl. active_record (tenant_id self) r \<longrightarrow> (\<exists>rpcs. n_rpc_urls r = JList rpcs)) \<longrightarrow>
      (\<exists>nets. load_network_configs_from_db self (Some db) = Inr nets \<and>
         (\<forall>r \<in> set tbl. active_record (tenant_id self) r \<longrightarrow>
            (\<exists>config. (JStr (n_slug r), config) \<in> set nets)) \<and>
         (\<forall>(k, c) \<in> set nets.
            \<exists>r \<in> set tbl. active_record (tenant_id self) r \<and> k = JStr (n_slug r)) \<and>
         (distinct (map n_slug (filter (active_record (tenant_id self)) tbl)) \<longrightarrow>
            map fst nets =
              map (\<lambda>r. JStr (n_slug r)) (filter (active_record (tenant_id self)) tbl) \<and>
            (\<forall>r \<in> set tbl. active_record (tenant_id self) r \<longrightarrow>
               (\<exists>config rpcs. map_of nets (JStr (n_slug r)) = Some config \<and>
                  n_rpc_urls r = JList rpcs \<and>
                  record_of_row (store_blocks self) r rpcs config)))))"
  using files_selection_missing [of self files] files_none_exist [of self files]
    files_all_loaded [of self files] db_selection_missing [of db tbl self]
    db_none_exist [of db tbl self] db_all_loaded [of db tbl self]
  by blast

theorem load_not_found_or_every_record_witness:
  "load_network_configs_from_files (sample_runner\<lparr> networks := [''polygon''] \<rparr>) (Some sample_files) =
     Inl (SysExit (NoMatchingNetworksFound [''polygon'']) 1) \<and>
   load_network_configs_from_files sample_runner (Some [(''broken'', None)]) =
     Inl (SysExit NoNetworkConfigurationsFound 1) \<and>
   load_network_configs_from_files sample_runner (Some sample_files) =
     Inr [(JStr ''eth'', [(''slug'', JStr ''eth''), (''network_type'', JStr ''EVM'')]),
          (JStr ''stellar_mainnet'', [(''network_type'', JStr ''Stellar'')])] \<and>
   load_network_configs_from_db (sample_runner\<lparr> networks := [''polygon''] \<rparr>)
       (Some (sample_database sample_networks_table)) =
     Inl (SysExit (NoMatchingNetworksInDatabase [''polygon'']) 1) \<and>
   load_network_configs_from_db sample_runner
       (Some (sample_database
          [sample_network_row ''a0eebc99-9c0b-4ef8-bb6d-6bb9bd380a11'' ''eth'' False,
           sample_network_row ''another-tenant'' ''eth'' True])) =
     Inl (SysExit NoNetworkConfigurationsInDatabase 1) \<and>
   load_network_configs_from_db sample_runner (Some (sample_database sample_networks_table)) =
     Inr [(JStr ''eth'',
           [(''name'', JStr ''eth''), (''slug'', JStr ''eth''), (''network_type'', JStr ''EVM''),
            (''chain_id'', JInt 1), (''network_passphrase'', JNull),
            (''rpc_urls'',
               JList [JObj [(''type_'', JStr ''rpc''),
                            (''url'', JObj [(''type'', JStr ''plain''),
                                            (''value'', JStr ''https://rpc.example'')]),
                            (''weight'', JInt 100)]]),
            (''block_time_ms'', JInt 12000), (''confirmation_blocks'', JInt 12),
            (''cron_schedule'', JStr ''0 */1 * * * *''), (''max_past_blocks'', JInt 18),
            (''store_blocks'', JBool False)]),
          (JStr ''xlm'',
           [(''name'', JStr ''Stellar Mainnet''), (''slug'', JStr ''xlm''),
            (''network_type'', JStr ''Stellar''), (''chain_id'', JNull),
            (''network_passphrase'', JStr ''Public Global Stellar Network ; September 2015''),
            (''rpc_urls'',
               JList [JObj [(''type_'', JStr ''rpc''),
                            (''url'', JObj [(''type'', JStr ''plain''),
                                            (''value'', JStr ''https://horizon.example'')]),
                            (''weight'', JInt 30)]]),
            (''block_time_ms'', JInt 5000), (''confirmation_blocks'', JInt 2),
            (''cron_schedule'', JStr ''0 */1 * * * *''), (''max_past_blocks'', JInt 20),
            (''store_blocks'', JBool True)])]"
proof -
  let ?t = "''a0eebc99-9c0b-4ef8-bb6d-6bb9bd380a11''"
  let ?sel = "sample_runner\<lparr> networks := [''polygon''] \<rparr>"
  let ?t2 = "[sample_network_row ?t ''eth'' False, sample_network_row ''another-tenant'' ''eth'' True]"
  note defs = sample_runner_def sample_files_def sample_database_def sample_network_row_def
    sample_networks_table_def file_record_def slug_in_def dict_get_default_def active_record_def
    Let_def py_key_eq_def
  have a: "load_network_configs_from_files ?sel (Some sample_files) =
             Inl (SysExit (NoMatchingNetworksFound [''polygon'']) 1)"
    using load_not_found_or_every_record
      [where self = ?sel and files = sample_files and db = "sample_database []" and tbl = "[]"]
    by (auto simp: defs)
  have b: "load_network_configs_from_files sample_runner (Some [(''broken'', None)]) =
             Inl (SysExit NoNetworkConfigurationsFound 1)"
    using load_not_found_or_every_record
      [where self = sample_runner and files = "[(''broken'', None)]"
         and db = "sample_database []" and tbl = "[]"]
    by (auto simp: defs)
  have c: "load_network_configs_from_files sample_runner (Some sample_files) =
     Inr [(JStr ''eth'', [(''slug'', JStr ''eth''), (''network_type'', JStr ''EVM'')]),
          (JStr ''stellar_mainnet'', [(''network_type'', JStr ''Stellar'')])]"
    using load_not_found_or_every_record
      [where self = sample_runner and files = sample_files
         and db = "sample_database []" and tbl = "[]"]
    by (auto simp: defs)
  have d: "load_network_configs_from_db ?sel (Some (sample_database sample_networks_table)) =
     Inl (SysExit (NoMatchingNetworksInDatabase [''polygon'']) 1)"
    using load_not_found_or_every_record
      [where self = ?sel and files = "[]" and db = "sample_database sample_networks_table"
         and tbl = sample_networks_table]
    by (auto simp: defs)
  have e: "load_network_configs_from_db sample_runner (Some (sample_database ?t2)) =
     Inl (SysExit NoNetworkConfigurationsInDatabase 1)"
    using load_not_found_or_every_record
      [where self = sample_runner and files = "[]" and db = "sample_database ?t2" and tbl = ?t2]
    by (auto simp: defs)
  have f: "load_network_configs_from_db sample_runner (Some (sample_database sample_networks_table)) =
     Inr [(JStr ''eth'',
           [(''name'', JStr ''eth''), (''slug'', JStr ''eth''), (''network_type'', JStr ''EVM''),
            (''chain_id'', JInt 1), (''network_passphrase'', JNull),
            (''rpc_urls'',
               JList [JObj [(''type_'', JStr ''rpc''),
                            (''url'', JObj [(''type'', JStr ''plain''),
                                            (''value'', JStr ''https://rpc.example'')]),
                            (''weight'', JInt 100)]]),
            (''block_time_ms'', JInt 12000), (''confirmation_blocks'', JInt 12),
            (''cron_schedule'', JStr ''0 */1 * * * *''), (''max_past_blocks'', JInt 18),
            (''store_blocks'', JBool False)]),
          (JStr ''xlm'',
           [(''name'', JStr ''Stellar Mainnet''), (''slug'', JStr ''xlm''),
            (''network_type'', JStr ''Stellar''), (''chain_id'', JNull),
            (''network_passphrase'', JStr ''Public Global Stellar Network ; September 2015''),
            (''rpc_urls'',
               JList [JObj [(''type_'', JStr ''rpc''),
                            (''url'', JObj [(''type'', JStr ''plain''),
                                            (''value'', JStr ''https://horizon.example'')]),
                            (''weight'', JInt 30)]]),
            (''block_time_ms'', JInt 5000), (''confirmation_blocks'', JInt 2),
            (''cron_schedule'', JStr ''0 */1 * * * *''), (''max_past_blocks'', JInt 20),
            (''store_blocks'', JBool True)])]"
    using load_not_found_or_every_record
      [where self = sample_runner and files = "[]" and db = "sample_database sample_networks_table"
         and tbl = sample_networks_table]
    by (simp add: defs load_network_configs_from_db_def select_networks_def
          network_config_of_row_def py_or_def rpc_entry_def)
  from a b c d e f show ?thesis by blast
qed

section \<open>Triggers without detail record\<close>

lemma no_detail_record_flat:
  "no_detail_record db row \<Longrightarrow> trigger_config_of_row db row = Some (flat_trigger row)"
proof -
  have none: "\<And>P xs. \<forall>x \<in> set xs. \<not> P x \<Longrightarrow> find P xs = None"
    by (simp add: find_None_iff)
  assume "no_detail_record db row"
  then show ?thesis
    by (auto simp: no_detail_record_def trigger_config_of_row_def none
             split: option.splits if_splits)
qed

lemma trigger_config_of_row_total:
  "email_triggers_table db \<noteq> None \<Longrightarrow> webhook_triggers_table db \<noteq> None \<Longrightarrow>
   trigger_config_of_row db row \<noteq> None"
  by (auto simp: trigger_config_of_row_def split: option.splits)

lemma trigger_rows_loop_total:
  "email_triggers_table db \<noteq> None \<Longrightarrow> webhook_triggers_table db \<noteq> None \<Longrightarrow>
   trigger_rows_loop db tm rows \<noteq> None"
proof (induction rows arbitrary: tm)
  case Nil
  then show ?case by simp
next
  case (Cons row rows)
  from trigger_config_of_row_total [OF Cons.prems, of row]
  obtain c where "trigger_config_of_row db row = Some c" by auto
  with Cons show ?case by simp
qed

lemma trigger_rows_loop_touched:
  "trigger_rows_loop db tm rows = Some tm' \<Longrightarrow>
   \<forall>r \<in> set rows. (t_id r = i \<or> t_slug r = i) \<longrightarrow> trigger_config_of_row db r = Some c \<Longrightarrow>
   map_of tm (JStr i) = Some (Some c) \<or> (\<exists>r \<in> set rows. t_id r = i \<or> t_slug r = i) \<Longrightarrow>
   map_of tm' (JStr i) = Some (Some c)"
proof (induction rows arbitrary: tm)
  case Nil
  then show ?case by simp
next
  case (Cons row rows)
  from Cons.prems(1) obtain cfg where cfg: "trigger_config_of_row db row = Some cfg"
    and loop: "trigger_rows_loop db
                 (key_set (key_set tm (JStr (t_id row)) (Some cfg)) (JStr (t_slug row)) (Some cfg))
                 rows = Some tm'"
    by (cases "trigger_config_of_row db row") auto
  let ?tm1 = "key_set (key_set tm (JStr (t_id row)) (Some cfg)) (JStr (t_slug row)) (Some cfg)"
  have m: "map_of ?tm1 (JStr i) =
             (if i = t_slug row \<or> i = t_id row then Some (Some cfg) else map_of tm (JStr i))"
    by (simp add: key_set_str map_of_dict_set)
  have "map_of ?tm1 (JStr i) = Some (Some c) \<or> (\<exists>r \<in> set rows. t_id r = i \<or> t_slug r = i)"
  proof (cases "t_id row = i \<or> t_slug row = i")
    case True
    with Cons.prems(2) cfg have "cfg = c" by auto
    with True m show ?thesis by auto
  next
    case False
    with Cons.prems(3) m show ?thesis by auto
  qed
  moreover from Cons.prems(2)
  have "\<forall>r \<in> set rows. (t_id r = i \<or> t_slug r = i) \<longrightarrow> trigger_config_of_row db r = Some c"
    by simp
  ultimately show ?case using Cons.IH [OF loop] by blast
qed

lemma dict_set_keys:
  "map fst (dict_set d k v) = (if k \<in> set (map fst d) then map fst d else map fst d @ [k])"
  by (induction d) force+

lemma dict_set_keys_set: "fst ` set (dict_set d k v) = insert k (fst ` set d)"
proof -
  have "set (map fst (dict_set d k v)) = insert k (set (map fst d))"
    by (simp only: dict_set_keys) auto
  then show ?thesis by simp
qed

lemma dict_update_keys: "fst ` set (dict_update d e) = fst ` set d \<union> fst ` set e"
  by (induction d e rule: dict_update.induct) (auto simp: dict_set_keys_set)

lemma merge_keys:
  "fst ` set (foldl dict_update d ts) = fst ` set d \<union> (\<Union>t \<in> set ts. fst ` set t)"
  by (induction ts arbitrary: d) (auto simp: dict_update_keys)

lemma merge_same:
  "\<forall>t \<in> set ts. t = flat_trigger row \<Longrightarrow>
   foldl dict_update (flat_trigger row) ts = flat_trigger row"
proof (induction ts)
  case Nil
  then show ?case by simp
next
  case (Cons t ts)
  have "dict_update (flat_trigger row) (flat_trigger row) = flat_trigger row"
    by (simp add: flat_trigger_def)
  with Cons show ?case by simp
qed

lemma merge_all_flat:
  "ts \<noteq> [] \<Longrightarrow> \<forall>t \<in> set ts. t = flat_trigger row \<Longrightarrow>
   merge_triggers ts = flat_trigger row"
proof (cases ts)
  case Nil
  then show "ts \<noteq> [] \<Longrightarrow> ?thesis" by simp
next
  case (Cons t ts')
  assume a: "\<forall>t \<in> set ts. t = flat_trigger row"
  with Cons have "dict_update [] t = flat_trigger row" by (simp add: flat_trigger_def)
  with a Cons show ?thesis by (simp add: merge_triggers_def merge_same)
qed

lemma key_set_values: "p \<in> set (key_set d k v) \<Longrightarrow> snd p = v \<or> p \<in> set d"
  by (induction d) (auto split: if_splits)

lemma note_ref_values:
  "note_ref tm k = Some tm' \<Longrightarrow> \<forall>p \<in> set tm. snd p = None \<Longrightarrow> \<forall>p \<in> set tm'. snd p = None"
  using key_set_values [of _ tm k None]
  by (auto simp: note_ref_def split: if_splits)

lemma collect_ref_values:
  "collect_ref tm r = Some tm' \<Longrightarrow> \<forall>p \<in> set tm. snd p = None \<Longrightarrow> \<forall>p \<in> set tm'. snd p = None"
proof (cases r)
  case (JStr s)
  assume "collect_ref tm r = Some tm'" and a: "\<forall>p \<in> set tm. snd p = None"
  with JStr have "note_ref tm (JStr s) = Some tm'" by (simp add: collect_ref_def)
  from note_ref_values [OF this a] show ?thesis .
next
  case (JObj d)
  assume c: "collect_ref tm r = Some tm'" and a: "\<forall>p \<in> set tm. snd p = None"
  show ?thesis
  proof (cases "map_of d ''id''")
    case None
    with c JObj a show ?thesis by (simp add: collect_ref_def)
  next
    case (Some trigger_id)
    with c JObj have "note_ref tm trigger_id = Some tm'" by (simp add: collect_ref_def)
    from note_ref_values [OF this a] show ?thesis .
  qed
qed (simp_all add: collect_ref_def)

lemma collect_refs_values:
  "collect_refs tm rs = Some tm' \<Longrightarrow> \<forall>p \<in> set tm. snd p = None \<Longrightarrow> \<forall>p \<in> set tm'. snd p = None"
proof (induction rs arbitrary: tm)
  case Nil
  then show ?case by simp
next
  case (Cons r rs)
  from Cons.prems(1) obtain tm1 where a: "collect_ref tm r = Some tm1"
    and b: "collect_refs tm1 rs = Some tm'"
    by (cases "collect_ref tm r") auto
  from collect_ref_values [OF a Cons.prems(2)] Cons.IH [OF b] show ?case by blast
qed

lemma monitor_rows_loop_values:
  "monitor_rows_loop ms tm rows = Some (ms', tm') \<Longrightarrow> \<forall>p \<in> set tm. snd p = None \<Longrightarrow>
   \<forall>p \<in> set tm'. snd p = None"
proof (induction rows arbitrary: ms tm)
  case Nil
  then show ?case by simp
next
  case (Cons row rows)
  from Cons.prems(1) obtain refs where r: "py_iter (m_triggers row) = Some refs"
    by (cases "py_iter (m_triggers row)") auto
  with Cons.prems(1) obtain tm1 where a: "collect_refs tm refs = Some tm1"
    by (cases "collect_refs tm refs") auto
  with r Cons.prems(1)
  have b: "monitor_rows_loop (ms @ [monitor_of_row row]) tm1 rows = Some (ms', tm')" by simp
  from collect_refs_values [OF a Cons.prems(2)] Cons.IH [OF b] show ?case by blast
qed

lemma select_triggers_no_refs: "select_triggers [] tid tbl = Some []"
  by (simp add: select_triggers_def)

lemma flat_trigger_keys: "fst ` set (flat_trigger row) = {''id'', ''name'', ''slug'', ''type''}"
  by (auto simp: flat_trigger_def)

lemma filter_write_monitors_trigger:
  "filter (\<lambda>f. is_trigger_file (fst f)) (write_monitors i ms) = []"
  by (induction ms arbitrary: i) (auto split: option.splits)

lemma filter_write_networks_trigger:
  "filter (\<lambda>f. is_trigger_file (fst f)) (write_networks sb nets) = []"
  by (auto simp: write_networks_def filter_empty_conv)

lemma filter_minimal_trigger:
  "filter (\<lambda>f. is_trigger_file (fst f)) (minimal_monitor_files nets) = []"
  by (simp add: minimal_monitor_files_def Let_def)

lemma no_trigger_file_before:
  "filter (\<lambda>f. is_trigger_file (fst f))
     (write_networks (store_blocks self) nets @ monitor_files self nets conn) = []"
  by (simp add: monitor_files_def filter_write_networks_trigger filter_minimal_trigger
        filter_write_monitors_trigger)

lemma filter_takeWhile_nil:
  "filter Q xs = [] \<Longrightarrow> filter Q (takeWhile P xs) = []"
  using set_takeWhile_subset [of P xs] unfolding filter_empty_conv by blast

lemma synthesized_trigger_files:
  "filter (\<lambda>f. is_trigger_file (fst f)) (written (create_minimal_configs self fs nets conn)) =
     (if completed (create_minimal_configs self fs nets conn) then [trigger_file self conn] else [])"
proof -
  let ?P = "\<lambda>f. can_open fs (fst f)"
  let ?T = "\<lambda>f. is_trigger_file (fst f)"
  let ?before = "write_networks (store_blocks self) nets @ monitor_files self nets conn"
  have b: "filter ?T ?before = []" by (rule no_trigger_file_before)
  then have p: "filter ?T (takeWhile ?P ?before) = []" by (rule filter_takeWhile_nil)
  have t: "is_trigger_file (fst (trigger_file self conn))" by (simp add: trigger_file_def)
  have s: "synthesis_files self nets conn = ?before @ [trigger_file self conn]"
    by (simp add: synthesis_files_def)
  have "filter ?T (takeWhile ?P (?before @ [trigger_file self conn])) =
          (if list_all ?P (?before @ [trigger_file self conn]) then [trigger_file self conn] else [])"
  proof (cases "list_all ?P ?before")
    case True
    then have "takeWhile ?P (?before @ [trigger_file self conn]) =
                 ?before @ takeWhile ?P [trigger_file self conn]"
      by (simp only: takeWhile_append_all if_True)
    then have "filter ?T (takeWhile ?P (?before @ [trigger_file self conn])) =
                 filter ?T ?before @ filter ?T (takeWhile ?P [trigger_file self conn])"
      by (simp only: filter_append)
    with b t True show ?thesis by simp
  next
    case False
    then have "takeWhile ?P (?before @ [trigger_file self conn]) = takeWhile ?P ?before"
      by (simp only: takeWhile_append_all if_False)
    moreover from False have "\<not> list_all ?P (?before @ [trigger_file self conn])" by auto
    ultimately show ?thesis by (simp only: p if_False)
  qed
  then show ?thesis
    unfolding synthesis_written synthesis_completed s by simp
qed

text \<open>
  Claim C10. Take a load from the relational backend in which the trigger query returns
  a row that has no detail record, the two detail tables can be queried, and no other
  returned row has the row's id as its id or slug (ids are unique, and no slug is an
  id). Then the row's configuration is the flat record of \<^verbatim>\<open>id\<close>, \<^verbatim>\<open>name\<close>, \<^verbatim>\<open>slug\<close> and
  \<^verbatim>\<open>type\<close>, with no entry under the row's slug; the load succeeds and the flat record is
  among the triggers it returns; the merged trigger mapping has \<^verbatim>\<open>id\<close>, \<^verbatim>\<open>name\<close>, \<^verbatim>\<open>slug\<close>
  and \<^verbatim>\<open>type\<close> among its top-level keys, and is the flat record itself when the row is
  the only one returned. A synthesis that writes all its files writes that mapping to
  \<^verbatim>\<open>triggers/database_triggers.json\<close>, as its one trigger file; a synthesis that a file
  which cannot be opened ends writes no trigger file.
\<close>

theorem trigger_without_detail_is_flat:
  assumes mt: "monitors_table db = Some mtbl"
    and ml: "monitor_rows_loop [] [] (select_monitors (tenant_id self) mtbl) = Some (monitors, tm)"
    and tt: "triggers_table db = Some ttbl"
    and et: "email_triggers_table db \<noteq> None"
    and wt: "webhook_triggers_table db \<noteq> None"
    and st: "select_triggers (map fst tm) (tenant_id self) ttbl = Some trows"
    and rin: "row \<in> set trows"
    and nd: "no_detail_record db row"
    and uniq: "\<forall>r \<in> set trows. r \<noteq> row \<longrightarrow> t_id r \<noteq> t_id row \<and> t_slug r \<noteq> t_id row"
  shows "trigger_config_of_row db row =
           Some [(''id'', JStr (t_id row)), (''name'', t_name row),
                 (''slug'', JStr (t_slug row)), (''type'', JStr (t_trigger_type row))] \<and>
         (\<exists>triggers.
            load_monitor_and_trigger_configs_from_db self (Some db) =
              \<lparr> printed = [], returned = (monitors, triggers) \<rparr> \<and>
            [(''id'', JStr (t_id row)), (''name'', t_name row),
             (''slug'', JStr (t_slug row)), (''type'', JStr (t_trigger_type row))]
              \<in> set triggers \<and>
            {''id'', ''name'', ''slug'', ''type''} \<subseteq> fst ` set (merge_triggers triggers) \<and>
            (trows = [row] \<longrightarrow>
               merge_triggers triggers =
                 [(''id'', JStr (t_id row)), (''name'', t_name row),
                  (''slug'', JStr (t_slug row)), (''type'', JStr (t_trigger_type row))]) \<and>
            (use_database self \<longrightarrow>
               filter (\<lambda>f. is_trigger_file (fst f))
                 (written (create_minimal_configs self fs nets (Some db))) =
               (if completed (create_minimal_configs self fs nets (Some db))
                then [(TriggerFile ''database_triggers'', JObj (merge_triggers triggers))]
                else [])))"
proof -
  let ?flat = "flat_trigger row"
  have flat: "trigger_config_of_row db row = Some ?flat"
    using nd by (rule no_detail_record_flat)
  have ne: "tm \<noteq> []"
  proof
    assume "tm = []"
    with st have "trows = []" by (simp add: select_triggers_no_refs)
    with rin show False by simp
  qed
  from trigger_rows_loop_total [OF et wt, of tm trows]
  obtain tm' where loop: "trigger_rows_loop db tm trows = Some tm'" by auto
  let ?triggers = "List.map_filter snd tm'"
  from ne tt st loop have "load_referenced_triggers (tenant_id self) db tm = Some tm'"
    by (simp add: load_referenced_triggers_def)
  with mt ml
  have load: "load_monitor_and_trigger_configs_from_db self (Some db) =
                \<lparr> printed = [], returned = (monitors, ?triggers) \<rparr>"
    by (simp add: load_monitor_and_trigger_configs_from_db_def)
  have "\<forall>r \<in> set trows. (t_id r = t_id row \<or> t_slug r = t_id row) \<longrightarrow>
          trigger_config_of_row db r = Some ?flat"
  proof (intro ballI impI)
    fix r assume "r \<in> set trows" and t: "t_id r = t_id row \<or> t_slug r = t_id row"
    with uniq have "r = row" by (cases "r = row") auto
    with flat show "trigger_config_of_row db r = Some ?flat" by simp
  qed
  moreover from rin have "\<exists>r \<in> set trows. t_id r = t_id row \<or> t_slug r = t_id row" by blast
  ultimately have "map_of tm' (JStr (t_id row)) = Some (Some ?flat)"
    using trigger_rows_loop_touched [OF loop] by blast
  then have "(JStr (t_id row), Some ?flat) \<in> set tm'" by (rule map_of_SomeD)
  then have "\<exists>x \<in> set tm'. snd x = Some ?flat" by (rule bexI [rotated]) simp
  then have mem: "?flat \<in> set ?triggers" by (simp add: set_map_filter)
  then have nonempty: "?triggers \<noteq> []" by (cases ?triggers) simp_all
  from mem have "fst ` set ?flat \<subseteq> fst ` set (merge_triggers ?triggers)"
    unfolding merge_triggers_def merge_keys by blast
  then have keys: "{''id'', ''name'', ''slug'', ''type''} \<subseteq> fst ` set (merge_triggers ?triggers)"
    by (simp only: flat_trigger_keys)
  have single: "trows = [row] \<longrightarrow> merge_triggers ?triggers = ?flat"
  proof
    assume only: "trows = [row]"
    have "trigger_rows_loop db tm [row] =
            Some (key_set (key_set tm (JStr (t_id row)) (Some ?flat))
                    (JStr (t_slug row)) (Some ?flat))"
      by (simp add: flat)
    with loop [unfolded only]
    have tm': "tm' = key_set (key_set tm (JStr (t_id row)) (Some ?flat))
                       (JStr (t_slug row)) (Some ?flat)"
      by (simp only: option.inject)
    have none: "\<forall>p \<in> set tm. snd p = None"
      using monitor_rows_loop_values [OF ml] by simp
    have "\<forall>p \<in> set tm'. snd p = Some ?flat \<or> snd p = None"
    proof
      fix p assume "p \<in> set tm'"
      then have "p \<in> set (key_set (key_set tm (JStr (t_id row)) (Some ?flat))
                             (JStr (t_slug row)) (Some ?flat))"
        by (simp only: tm')
      then have "snd p = Some ?flat \<or> p \<in> set (key_set tm (JStr (t_id row)) (Some ?flat))"
        by (rule key_set_values)
      then show "snd p = Some ?flat \<or> snd p = None"
      proof
        assume "snd p = Some ?flat"
        then show ?thesis by (rule disjI1)
      next
        assume "p \<in> set (key_set tm (JStr (t_id row)) (Some ?flat))"
        then have "snd p = Some ?flat \<or> p \<in> set tm" by (rule key_set_values)
        with none show ?thesis by auto
      qed
    qed
    then have "\<forall>t \<in> set ?triggers. t = ?flat" by (auto simp: set_map_filter)
    with nonempty show "merge_triggers ?triggers = ?flat" by (rule merge_all_flat)
  qed
  have wr: "use_database self \<longrightarrow>
               filter (\<lambda>f. is_trigger_file (fst f))
                 (written (create_minimal_configs self fs nets (Some db))) =
               (if completed (create_minimal_configs self fs nets (Some db))
                then [(TriggerFile ''database_triggers'', JObj (merge_triggers ?triggers))]
                else [])"
    using load nonempty by (simp add: synthesized_trigger_files trigger_file_def)
  have lit: "?flat = [(''id'', JStr (t_id row)), (''name'', t_name row),
                 (''slug'', JStr (t_slug row)), (''type'', JStr (t_trigger_type row))]"
    by (simp add: flat_trigger_def)
  from flat load mem keys single wr show ?thesis unfolding lit by blast
qed

theorem trigger_without_detail_is_flat_witness:
  "no_detail_record trigger_database sample_trigger_row \<and>
   trigger_config_of_row trigger_database sample_trigger_row =
     Some [(''id'', JStr ''0b1d3c5e-0000-4000-8000-000000000001''), (''name'', JStr ''Ops chat''),
           (''slug'', JStr ''ops_chat''), (''type'', JStr ''slack'')] \<and>
   load_monitor_and_trigger_configs_from_db database_runner (Some trigger_database) =
     \<lparr> printed = [],
       returned =
         ([[(''name'', JStr ''large_transfers''), (''paused'', JBool False),
            (''networks'', JList [JStr ''eth'']), (''addresses'', JList []),
            (''match_conditions'',
               JObj [(''functions'', JList []), (''events'', JList []),
                     (''transactions'', JList [])]),
            (''trigger_conditions'', JList []), (''triggers'', JList [JStr ''ops_chat''])]],
          [[(''id'', JStr ''0b1d3c5e-0000-4000-8000-000000000001''),
            (''name'', JStr ''Ops chat''), (''slug'', JStr ''ops_chat''),
            (''type'', JStr ''slack'')],
           [(''id'', JStr ''0b1d3c5e-0000-4000-8000-000000000001''),
            (''name'', JStr ''Ops chat''), (''slug'', JStr ''ops_chat''),
            (''type'', JStr ''slack'')]]) \<rparr> \<and>
   filter (\<lambda>f. is_trigger_file (fst f))
     (written (create_minimal_configs database_runner fresh_directory three_networks
                 (Some trigger_database))) =
     [(TriggerFile ''database_triggers'',
       JObj [(''id'', JStr ''0b1d3c5e-0000-4000-8000-000000000001''),
             (''name'', JStr ''Ops chat''), (''slug'', JStr ''ops_chat''),
             (''type'', JStr ''slack'')])] \<and>
   filter (\<lambda>f. is_trigger_file (fst f))
     (written (create_minimal_configs database_runner fresh_directory nested_slug_networks
                 (Some trigger_database))) = []"
proof -
  note defs = database_runner_def sample_runner_def trigger_database_def sample_monitor_row_def
    sample_trigger_row_def
  have 1: "monitors_table trigger_database = Some [sample_monitor_row]"
    by (simp add: trigger_database_def)
  have 2: "monitor_rows_loop [] [] (select_monitors (tenant_id database_runner) [sample_monitor_row]) =
             Some ([monitor_of_row sample_monitor_row], [(JStr ''ops_chat'', None)])"
    by (simp add: defs select_monitors_def collect_ref_def note_ref_def)
  have 3: "triggers_table trigger_database = Some [sample_trigger_row]"
    by (simp add: trigger_database_def)
  have 4: "email_triggers_table trigger_database \<noteq> None" by (simp add: trigger_database_def)
  have 5: "webhook_triggers_table trigger_database \<noteq> None" by (simp add: trigger_database_def)
  have 6: "select_triggers (map fst [(JStr ''ops_chat'', None :: pydict option)])
             (tenant_id database_runner) [sample_trigger_row] = Some [sample_trigger_row]"
    by (simp add: defs select_triggers_def)
  have 7: "sample_trigger_row \<in> set [sample_trigger_row]" by simp
  have 8: "no_detail_record trigger_database sample_trigger_row"
    by (simp add: defs no_detail_record_def)
  have 9: "\<forall>r \<in> set [sample_trigger_row]. r \<noteq> sample_trigger_row \<longrightarrow>
             t_id r \<noteq> t_id sample_trigger_row \<and> t_slug r \<noteq> t_id sample_trigger_row"
    by simp
  have 10: "use_database database_runner" by (simp add: defs)
  have 11: "monitor_of_row sample_monitor_row =
           [(''name'', JStr ''large_transfers''), (''paused'', JBool False),
            (''networks'', JList [JStr ''eth'']), (''addresses'', JList []),
            (''match_conditions'',
               JObj [(''functions'', JList []), (''events'', JList []),
                     (''transactions'', JList [])]),
            (''trigger_conditions'', JList []), (''triggers'', JList [JStr ''ops_chat''])]"
    by (simp add: monitor_of_row_def sample_monitor_row_def)
  have 12: "completed (create_minimal_configs database_runner fresh_directory three_networks
                 (Some trigger_database))"
    unfolding synthesis_completed
    by (simp add: synthesis_files_def monitor_files_def trigger_file_def write_networks_def
          network_copy_def three_networks_def fresh_directory_def defs
          load_monitor_and_trigger_configs_from_db_def select_monitors_def collect_ref_def
          note_ref_def load_referenced_triggers_def select_triggers_def trigger_config_of_row_def
          flat_trigger_def List.map_filter_def monitor_of_row_def merge_triggers_def)
  have 13: "\<not> completed (create_minimal_configs database_runner fresh_directory
                 nested_slug_networks (Some trigger_database))"
    unfolding synthesis_completed
    by (simp add: synthesis_files_def write_networks_def network_copy_def
          nested_slug_networks_def fresh_directory_def)
  have 14: "t_id sample_trigger_row = ''0b1d3c5e-0000-4000-8000-000000000001'' \<and>
            t_name sample_trigger_row = JStr ''Ops chat'' \<and>
            t_slug sample_trigger_row = ''ops_chat'' \<and>
            t_trigger_type sample_trigger_row = ''slack''"
    by (simp add: sample_trigger_row_def)
  have 15: "load_monitor_and_trigger_configs_from_db database_runner (Some trigger_database) =
     \<lparr> printed = [],
       returned =
         ([monitor_of_row sample_monitor_row],
          [[(''id'', JStr ''0b1d3c5e-0000-4000-8000-000000000001''),
            (''name'', JStr ''Ops chat''), (''slug'', JStr ''ops_chat''),
            (''type'', JStr ''slack'')],
           [(''id'', JStr ''0b1d3c5e-0000-4000-8000-000000000001''),
            (''name'', JStr ''Ops chat''), (''slug'', JStr ''ops_chat''),
            (''type'', JStr ''slack'')]]) \<rparr>"
    by (simp add: defs load_monitor_and_trigger_configs_from_db_def select_monitors_def
          collect_ref_def note_ref_def load_referenced_triggers_def select_triggers_def
          trigger_config_of_row_def flat_trigger_def List.map_filter_def py_key_eq_def)
  from trigger_without_detail_is_flat
         [where db = trigger_database and self = database_runner and mtbl = "[sample_monitor_row]"
            and monitors = "[monitor_of_row sample_monitor_row]"
            and tm = "[(JStr ''ops_chat'', None)]" and ttbl = "[sample_trigger_row]"
            and trows = "[sample_trigger_row]" and row = sample_trigger_row
            and fs = fresh_directory and nets = three_networks, OF 1 2 3 4 5 6 7 8 9]
       trigger_without_detail_is_flat
         [where db = trigger_database and self = database_runner and mtbl = "[sample_monitor_row]"
            and monitors = "[monitor_of_row sample_monitor_row]"
            and tm = "[(JStr ''ops_chat'', None)]" and ttbl = "[sample_trigger_row]"
            and trows = "[sample_trigger_row]" and row = sample_trigger_row
            and fs = fresh_directory and nets = nested_slug_networks, OF 1 2 3 4 5 6 7 8 9]
       8 10 11 12 13 14 15
  show ?thesis by auto
qed

section \<open>Failures of the relational backend\<close>












end
